theory Spec2Isabelle
  imports Main
begin

section \<open>Constants (common/pulp_deb/common/constants.py)\<close>

definition TYPE_DEB :: string where
  "TYPE_DEB = ''deb''"

definition STATE_NOT_STARTED :: string where
  "STATE_NOT_STARTED = ''not-started''"

definition STATE_RUNNING :: string where
  "STATE_RUNNING = ''running''"

definition STATE_SUCCESS :: string where
  "STATE_SUCCESS = ''success''"

definition STATE_FAILED :: string where
  "STATE_FAILED = ''failed''"

definition STATE_SKIPPED :: string where
  "STATE_SKIPPED = ''skipped''"

definition CONFIG_REMOVE_MISSING :: string where
  "CONFIG_REMOVE_MISSING = ''remove_missing''"

definition DEFAULT_REMOVE_MISSING :: bool where
  "DEFAULT_REMOVE_MISSING = False"

section \<open>Python values and exceptions\<close>

text \<open>
  The attributes of a report object and the entries of its snapshot dictionary hold
  arbitrary Python values. \<open>PObj\<close> is an opaque object (an exception instance, a
  traceback), named by a description. A dictionary is an association list; its keys
  are distinct wherever the code builds one from a literal.
\<close>

datatype pyval =
    PNone
  | PInt int
  | PStr string
  | PDict "(string \<times> pyval) list"
  | PObj string

text \<open>
  What a \<^verbatim>\<open>raise\<close> carries. \<open>Exception\<close> stands for every instance of Python's
  class \<^verbatim>\<open>Exception\<close>, the class that the handlers \<^verbatim>\<open>except Exception, e\<close> of sync.py
  name; \<open>SystemExiting\<close> stands for the exceptions outside that class
  (\<^verbatim>\<open>KeyboardInterrupt\<close>, \<^verbatim>\<open>SystemExit\<close>), which those handlers let through.
\<close>

datatype exn = Exception string | SystemExiting string

definition getitem :: "pyval \<Rightarrow> string \<Rightarrow> exn + pyval" where
  "getitem d k =
     (case d of
        PDict kvs \<Rightarrow>
          (case map_of kvs k of
             Some v \<Rightarrow> Inr v
           | None \<Rightarrow> Inl (Exception ''KeyError''))
      | _ \<Rightarrow> Inl (Exception ''TypeError''))"

text \<open>Python's \<^verbatim>\<open>a + b\<close> on the values modelled here.\<close>

fun py_add :: "pyval \<Rightarrow> pyval \<Rightarrow> exn + pyval" where
  "py_add (PInt a) (PInt b) = Inr (PInt (a + b))"
| "py_add (PStr a) (PStr b) = Inr (PStr (a @ b))"
| "py_add _ _ = Inl (Exception ''TypeError'')"

definition and_then :: "exn + 'a \<Rightarrow> ('a \<Rightarrow> exn + 'b) \<Rightarrow> exn + 'b" where
  "and_then m f = (case m of Inl e \<Rightarrow> Inl e | Inr v \<Rightarrow> f v)"

section \<open>PublishProgressReport (common/pulp_deb/common/publish_progress.py)\<close>

text \<open>
  The conduit is the live progress sink of the server. A report rebuilt from a snapshot
  has none (\<^verbatim>\<open>cls(None)\<close>).
\<close>

datatype conduit = Conduit string

text \<open>
  What \<^verbatim>\<open>conduit.build_success_report(summary, details)\<close> and
  \<^verbatim>\<open>conduit.build_failure_report(summary, details)\<close> return.
\<close>

datatype final_report = SuccessReport pyval pyval | FailureReport pyval pyval

record PublishProgressReport =
  conduit :: "conduit option"
  packages_state :: pyval
  packages_execution_time :: pyval
  packages_total_count :: pyval
  packages_finished_count :: pyval
  packages_error_count :: pyval
  packages_individual_errors :: pyval
  packages_error_message :: pyval
  packages_exception :: pyval
  packages_traceback :: pyval
  metadata_state :: pyval
  metadata_execution_time :: pyval
  metadata_error_message :: pyval
  metadata_exception :: pyval
  metadata_traceback :: pyval
  publish_http :: pyval
  publish_https :: pyval

text \<open>\<^verbatim>\<open>PublishProgressReport.__init__(self, conduit)\<close>\<close>

definition PublishProgressReport_init :: "conduit option \<Rightarrow> PublishProgressReport" where
  "PublishProgressReport_init c =
     \<lparr> conduit = c,
       packages_state = PStr STATE_NOT_STARTED,
       packages_execution_time = PNone,
       packages_total_count = PNone,
       packages_finished_count = PNone,
       packages_error_count = PNone,
       packages_individual_errors = PNone,
       packages_error_message = PNone,
       packages_exception = PNone,
       packages_traceback = PNone,
       metadata_state = PStr STATE_NOT_STARTED,
       metadata_execution_time = PNone,
       metadata_error_message = PNone,
       metadata_exception = PNone,
       metadata_traceback = PNone,
       publish_http = PStr STATE_NOT_STARTED,
       publish_https = PStr STATE_NOT_STARTED \<rparr>"

text \<open>
  \<^verbatim>\<open>_packages_section\<close>, \<^verbatim>\<open>_metadata_section\<close>, \<^verbatim>\<open>_publishing_section\<close>. The module
  \<^verbatim>\<open>reporting\<close> is not among the sources: its \<^verbatim>\<open>format_exception\<close> and
  \<^verbatim>\<open>format_traceback\<close> are the parameters \<open>fe\<close> and \<open>ft\<close>.
\<close>

definition packages_section ::
  "(pyval \<Rightarrow> pyval) \<Rightarrow> (pyval \<Rightarrow> pyval) \<Rightarrow> PublishProgressReport \<Rightarrow> pyval" where
  "packages_section fe ft r =
     PDict [(''state'', packages_state r),
            (''execution_time'', packages_execution_time r),
            (''total_count'', packages_total_count r),
            (''finished_count'', packages_finished_count r),
            (''error_count'', packages_error_count r),
            (''individual_errors'', packages_individual_errors r),
            (''error_message'', packages_error_message r),
            (''error'', fe (packages_exception r)),
            (''traceback'', ft (packages_traceback r))]"

definition metadata_section ::
  "(pyval \<Rightarrow> pyval) \<Rightarrow> (pyval \<Rightarrow> pyval) \<Rightarrow> PublishProgressReport \<Rightarrow> pyval" where
  "metadata_section fe ft r =
     PDict [(''state'', metadata_state r),
            (''execution_time'', metadata_execution_time r),
            (''error_message'', metadata_error_message r),
            (''error'', fe (metadata_exception r)),
            (''traceback'', ft (metadata_traceback r))]"

definition publishing_section :: "PublishProgressReport \<Rightarrow> pyval" where
  "publishing_section r =
     PDict [(''http'', publish_http r),
            (''https'', publish_https r)]"

definition build_progress_report ::
  "(pyval \<Rightarrow> pyval) \<Rightarrow> (pyval \<Rightarrow> pyval) \<Rightarrow> PublishProgressReport \<Rightarrow> pyval" where
  "build_progress_report fe ft r =
     PDict [(''packages'', packages_section fe ft r),
            (''metadata'', metadata_section fe ft r),
            (''publishing'', publishing_section r)]"

text \<open>
  \<^verbatim>\<open>from_progress_dict(cls, report)\<close>: every subscript may raise (\<^verbatim>\<open>KeyError\<close> for a
  missing key, \<^verbatim>\<open>TypeError\<close> when the value is no dictionary); the lookups run in the
  order of the source.
\<close>

definition from_progress_dict :: "pyval \<Rightarrow> exn + PublishProgressReport" where
  "from_progress_dict report =
     and_then (getitem report ''packages'') (\<lambda>m.
     and_then (getitem m ''state'') (\<lambda>p_state.
     and_then (getitem m ''execution_time'') (\<lambda>p_time.
     and_then (getitem m ''total_count'') (\<lambda>p_total.
     and_then (getitem m ''finished_count'') (\<lambda>p_finished.
     and_then (getitem m ''error_count'') (\<lambda>p_errors.
     and_then (getitem m ''individual_errors'') (\<lambda>p_individual.
     and_then (getitem m ''error_message'') (\<lambda>p_message.
     and_then (getitem m ''error'') (\<lambda>p_error.
     and_then (getitem m ''traceback'') (\<lambda>p_traceback.
     and_then (getitem report ''metadata'') (\<lambda>m.
     and_then (getitem m ''state'') (\<lambda>m_state.
     and_then (getitem m ''execution_time'') (\<lambda>m_time.
     and_then (getitem m ''error_message'') (\<lambda>m_message.
     and_then (getitem m ''error'') (\<lambda>m_error.
     and_then (getitem m ''traceback'') (\<lambda>m_traceback.
     and_then (getitem report ''publishing'') (\<lambda>m.
     and_then (getitem m ''http'') (\<lambda>http.
     and_then (getitem m ''https'') (\<lambda>https.
     Inr ((PublishProgressReport_init None)
           \<lparr> packages_state := p_state,
             packages_execution_time := p_time,
             packages_total_count := p_total,
             packages_finished_count := p_finished,
             packages_error_count := p_errors,
             packages_individual_errors := p_individual,
             packages_error_message := p_message,
             packages_exception := p_error,
             packages_traceback := p_traceback,
             metadata_state := m_state,
             metadata_execution_time := m_time,
             metadata_error_message := m_message,
             metadata_exception := m_error,
             metadata_traceback := m_traceback,
             publish_http := http,
             publish_https := https \<rparr>))))))))))))))))))))"

text \<open>
  \<^verbatim>\<open>build_final_report(self)\<close>. The sum of the two times is computed first, so a
  \<^verbatim>\<open>TypeError\<close> of \<^verbatim>\<open>+\<close> comes before anything else; the conduit's method is looked
  up last, which fails with \<^verbatim>\<open>AttributeError\<close> on a report that has no conduit.
\<close>

definition build_final_report :: "PublishProgressReport \<Rightarrow> exn + final_report" where
  "build_final_report r =
     and_then
       (if metadata_execution_time r \<noteq> PNone \<and> packages_execution_time r \<noteq> PNone
        then py_add (metadata_execution_time r) (packages_execution_time r)
        else Inr (PInt (- 1)))
       (\<lambda>total_execution_time.
          let summary = PDict [(''total_execution_time'', total_execution_time)];
              details = PDict [];
              all_step_states = [metadata_state r, packages_state r];
              unsuccessful_steps = filter (\<lambda>s. s \<noteq> PStr STATE_SUCCESS) all_step_states
          in if length unsuccessful_steps = 0
             then (case conduit r of
                     None \<Rightarrow> Inl (Exception ''AttributeError'')
                   | Some c \<Rightarrow> Inr (SuccessReport summary details))
             else (case conduit r of
                     None \<Rightarrow> Inl (Exception ''AttributeError'')
                   | Some c \<Rightarrow> Inr (FailureReport summary details)))"

text \<open>An execution time as the code records it: \<^verbatim>\<open>None\<close> or a number of seconds.\<close>

definition is_seconds :: "pyval \<Rightarrow> bool" where
  "is_seconds v = (case v of PNone \<Rightarrow> True | PInt n \<Rightarrow> True | _ \<Rightarrow> False)"

definition total_time :: "pyval \<Rightarrow> pyval \<Rightarrow> int" where
  "total_time m p = (case (m, p) of (PInt a, PInt b) \<Rightarrow> a + b | _ \<Rightarrow> - 1)"

section \<open>Dictionaries with string keys\<close>

text \<open>
  A Python \<^verbatim>\<open>dict\<close> as an association list with distinct keys: assignment replaces the
  value of a key that is present and adds the key otherwise; a subscript with a missing
  key raises \<^verbatim>\<open>KeyError\<close>.
\<close>

type_synonym 'v dict = "(string \<times> 'v) list"

fun dict_set :: "string \<Rightarrow> 'v \<Rightarrow> 'v dict \<Rightarrow> 'v dict" where
  "dict_set k v [] = [(k, v)]"
| "dict_set k v (p # ps) = (if fst p = k then (k, v) # ps else p # dict_set k v ps)"

text \<open>\<^verbatim>\<open>dict(pairs)\<close>: a later pair replaces an earlier one with the same key.\<close>

fun dict_of_pairs :: "'v dict \<Rightarrow> (string \<times> 'v) list \<Rightarrow> 'v dict" where
  "dict_of_pairs d [] = d"
| "dict_of_pairs d (p # ps) = dict_of_pairs (dict_set (fst p) (snd p) d) ps"

definition dict_keys :: "'v dict \<Rightarrow> string list" where
  "dict_keys d = map fst d"

definition dict_get :: "'v dict \<Rightarrow> string \<Rightarrow> exn + 'v" where
  "dict_get d k =
     (case map_of d k of
        Some v \<Rightarrow> Inr v
      | None \<Rightarrow> Inl (Exception ''KeyError''))"

section \<open>Packages, units and resources\<close>

text \<open>
  A unit key is the dictionary with the keys \<^verbatim>\<open>package\<close>, \<^verbatim>\<open>version\<close> and
  \<^verbatim>\<open>maintainer\<close> that \<^verbatim>\<open>unit_key_str\<close> (sync.py, in \<^verbatim>\<open>_do_import_packages\<close>) formats.
\<close>

record unit_key_dict =
  uk_package :: string
  uk_version :: string
  uk_maintainer :: string

text \<open>\<^verbatim>\<open>u'%(package)s-%(version)s-%(maintainer)s' % unit_key_dict\<close>\<close>

definition unit_key_str :: "unit_key_dict \<Rightarrow> string" where
  "unit_key_str unit_key_dict =
     uk_package unit_key_dict @ ''-'' @ uk_version unit_key_dict @ ''-'' @ uk_maintainer unit_key_dict"

text \<open>
  A resource is the dictionary the downloader fills in: \<^verbatim>\<open>resource['storage_path']\<close> and
  \<^verbatim>\<open>resource['path']\<close> are the two entries sync.py reads.
\<close>

record resource =
  res_storage_path :: string
  res_path :: string

text \<open>
  A unit of the store, as \<^verbatim>\<open>sync_conduit.init_unit(type_id, unit_key, metadata, path)\<close>
  returns it and \<^verbatim>\<open>sync_conduit.get_units\<close> lists it. The metadata is not read by any
  decision of sync.py and is left out.
\<close>

record unit =
  type_id :: string
  unit_key :: unit_key_dict
  storage_path :: string

text \<open>
  Modelled from the spec: the class \<^verbatim>\<open>Package\<close> of \<^verbatim>\<open>pulp_deb.common.model\<close>, which is
  not among the sources. The spec gives a package its descriptive fields, an identity key
  that is a deterministic composite of (package-name, version, maintainer), and the list
  of resources it needs; \<^verbatim>\<open>DEB_KEY\<close> of constants.py is the key's template, the same
  text as \<^verbatim>\<open>unit_key_str\<close>.
\<close>

record Package =
  key_fields :: unit_key_dict
  package_type :: string
  resources :: "resource list"

definition Package_key :: "Package \<Rightarrow> string" where
  "Package_key p = unit_key_str (key_fields p)"

definition Package_unit_key :: "Package \<Rightarrow> unit_key_dict" where
  "Package_unit_key p = key_fields p"

definition get_resources :: "Package \<Rightarrow> resource list" where
  "get_resources p = resources p"

text \<open>
  Modelled from the spec: \<^verbatim>\<open>Package.from_unit\<close>; an existing inventory item carries the
  same identity-key fields. Only the key of the result is read.
\<close>

definition Package_from_unit :: "unit \<Rightarrow> Package" where
  "Package_from_unit u = \<lparr> key_fields = unit_key u, package_type = ''package'', resources = [] \<rparr>"

section \<open>SyncProgressReport\<close>

text \<open>The traceback that \<^verbatim>\<open>sys.exc_info()[2]\<close> gives while an exception is handled.\<close>

datatype traceback_obj = TracebackOf exn

text \<open>
  Modelled from the spec: the class \<^verbatim>\<open>SyncProgressReport\<close> of
  \<^verbatim>\<open>pulp_deb.common.sync_progress\<close>, which is not among the sources. The record holds the
  attributes that sync.py assigns, under the names sync.py uses, and the map of
  individual errors that \<^verbatim>\<open>add_failed_package\<close> fills. The index phase has, in the spec's
  words, a state, an elapsed time, an error message, an error cause and an error detail:
  \<open>state\<close>, \<open>execution_time\<close>, \<open>error_message\<close>, \<open>exception\<close> and \<open>traceback\<close>.
  \<open>resource_state\<close> is the attribute that line 97 of sync.py assigns; it is \<open>None\<close>
  until then.
\<close>

record SyncProgressReport =
  resource_state :: "string option"
  state :: string
  execution_time :: "int option"
  error_message :: "string option"
  exception :: "exn option"
  traceback :: "traceback_obj option"
  packages_state :: string
  packages_execution_time :: "int option"
  packages_total_count :: "int option"
  packages_finished_count :: "int option"
  packages_error_count :: "int option"
  packages_individual_errors :: "string dict option"
  packages_error_message :: "string option"
  packages_exception :: "exn option"
  packages_traceback :: "traceback_obj option"

text \<open>
  Modelled from the spec: the constructor. Every phase starts in \<^verbatim>\<open>not-started\<close> with
  nothing recorded, as \<^verbatim>\<open>PublishProgressReport.__init__\<close> does for its phases.
\<close>

definition SyncProgressReport_init :: SyncProgressReport where
  "SyncProgressReport_init =
     \<lparr> resource_state = None,
       state = STATE_NOT_STARTED,
       execution_time = None,
       error_message = None,
       exception = None,
       traceback = None,
       packages_state = STATE_NOT_STARTED,
       packages_execution_time = None,
       packages_total_count = None,
       packages_finished_count = None,
       packages_error_count = None,
       packages_individual_errors = None,
       packages_error_message = None,
       packages_exception = None,
       packages_traceback = None \<rparr>"

text \<open>
  Modelled from the spec: \<^verbatim>\<open>add_failed_package(package, error, trace)\<close> increments the
  package-import error count and records a failure entry keyed by the package's identity
  key, as text. The body follows \<^verbatim>\<open>PublishProgressReport.add_failed_package\<close>:
  \<^verbatim>\<open>+= 1\<close> on a count that is still \<^verbatim>\<open>None\<close> raises \<^verbatim>\<open>TypeError\<close>, and the map is
  created on first use. \<open>fmt\<close> is the formatting of the absent module \<^verbatim>\<open>reporting\<close>.
\<close>

definition add_failed_package ::
  "(exn \<Rightarrow> string) \<Rightarrow> Package \<Rightarrow> exn \<Rightarrow> SyncProgressReport \<Rightarrow> exn + SyncProgressReport" where
  "add_failed_package fmt pkg e r =
     (case packages_error_count r of
        None \<Rightarrow> Inl (Exception ''TypeError'')
      | Some n \<Rightarrow>
          Inr (r\<lparr> packages_error_count := Some (n + 1),
                  packages_individual_errors :=
                    Some (dict_set (Package_key pkg) (fmt e)
                            (case packages_individual_errors r of None \<Rightarrow> [] | Some d \<Rightarrow> d)) \<rparr>))"

text \<open>
  Modelled from the spec: \<^verbatim>\<open>build_final_report\<close> of the sync report: success iff the
  index phase and the package-import phase both ended in \<^verbatim>\<open>success\<close>; the summary
  carries the combined elapsed time. The body follows
  \<^verbatim>\<open>PublishProgressReport.build_final_report\<close>.
\<close>

definition sync_build_final_report :: "SyncProgressReport \<Rightarrow> final_report" where
  "sync_build_final_report r =
     (let total_execution_time =
            (case (execution_time r, packages_execution_time r) of
               (Some a, Some b) \<Rightarrow> a + b
             | _ \<Rightarrow> - 1);
          summary = PDict [(''total_execution_time'', PInt total_execution_time)];
          details = PDict [];
          all_step_states = [state r, packages_state r];
          unsuccessful_steps = filter (\<lambda>s. s \<noteq> STATE_SUCCESS) all_step_states
      in if length unsuccessful_steps = 0
         then SuccessReport summary details
         else FailureReport summary details)"

section \<open>The collaborators of a sync run\<close>

text \<open>
  A store write that went through \<^verbatim>\<open>sync_conduit\<close>, in the order of the calls.
\<close>

datatype store_event =
    InitUnit unit
  | SaveUnit unit
  | LinkUnit unit unit
  | RemoveUnit unit

text \<open>
  What the code outside the sources does in one run: whether a call raises and what it
  returns. The downloader factory, the downloader, \<^verbatim>\<open>Distribution\<close>, the store conduit
  and the file system are not among the sources; each is a field here, so a theorem
  about every \<open>env\<close> is a theorem about every behaviour of theirs. The downloader is
  created twice, by \<^verbatim>\<open>_update_dist\<close> and by \<^verbatim>\<open>_do_import_packages\<close>, and each call
  has its own field; any other field answers the same arguments the same way during one
  run. A downloader is handed the progress report (base.py documents the parameter and
  nothing more); the model takes it not to change the report. The seconds are what
  \<^verbatim>\<open>duration.seconds\<close> reads from the clock. \<open>update_from_resources_result\<close> gives
  what \<^verbatim>\<open>dist.update_from_resources\<close> raises, if anything, and the package list of
  the distribution after the call.
\<close>

record env =
  create_index_downloader_raises :: "exn option"
  create_import_downloader_raises :: "exn option"
  download_indexes_result :: "exn + resource list"
  update_from_resources_result :: "resource list \<Rightarrow> exn option \<times> Package list"
  index_seconds :: int
  packages_seconds :: int
  get_units_result :: "exn + unit list"
  download_resources_raises :: "Package \<Rightarrow> exn option"
  init_unit_raises :: "string \<Rightarrow> unit_key_dict \<Rightarrow> string \<Rightarrow> exn option"
  copy_raises :: "resource \<Rightarrow> unit \<Rightarrow> exn option"
  save_unit_raises :: "unit \<Rightarrow> exn option"
  link_unit_raises :: "unit \<Rightarrow> unit \<Rightarrow> exn option"
  remove_unit_raises :: "unit \<Rightarrow> exn option"
  format_failure :: "exn \<Rightarrow> string"

section \<open>PackageSyncRun (plugins/importers/sync.py)\<close>

text \<open>
  The state of one run: the attributes of \<^verbatim>\<open>PackageSyncRun\<close> that change or are read
  (\<^verbatim>\<open>progress_report\<close>, \<^verbatim>\<open>dist.packages\<close>, \<^verbatim>\<open>config\<close>), the snapshots that
  \<^verbatim>\<open>update_progress\<close> has pushed to the conduit and the store writes made so far. The
  configuration maps an option to the boolean that \<^verbatim>\<open>config.get_boolean\<close> reads for it.
\<close>

record PackageSyncRun =
  progress_report :: SyncProgressReport
  dist_packages :: "Package list"
  config :: "string \<rightharpoonup> bool"
  progress_log :: "SyncProgressReport list"
  store_log :: "store_event list"

text \<open>
  Modelled from the spec: the package list of the \<^verbatim>\<open>Distribution\<close> that
  \<^verbatim>\<open>PackageSyncRun.__init__\<close> constructs (model.py is not among the sources). A
  distribution owns a list of packages once its metadata has been fetched and parsed;
  before that the list is empty. The other attributes are set as \<^verbatim>\<open>__init__\<close> sets them.
\<close>

definition PackageSyncRun_init :: "(string \<rightharpoonup> bool) \<Rightarrow> PackageSyncRun" where
  "PackageSyncRun_init cfg =
     \<lparr> progress_report = SyncProgressReport_init,
       dist_packages = [],
       config = cfg,
       progress_log = [],
       store_log = [] \<rparr>"

text \<open>
  Modelled from the spec: \<^verbatim>\<open>update_progress()\<close> pushes the current full snapshot to the
  progress sink; the sink needs no acknowledgment.
\<close>

definition update_progress :: "PackageSyncRun \<Rightarrow> PackageSyncRun" where
  "update_progress s = s\<lparr> progress_log := progress_log s @ [progress_report s] \<rparr>"

text \<open>
  A procedure of the run returns the state it leaves and the exception it raised, if
  any: the writes made before a \<^verbatim>\<open>raise\<close> stay.
\<close>

definition store_call ::
  "exn option \<Rightarrow> store_event \<Rightarrow> PackageSyncRun \<Rightarrow> PackageSyncRun \<times> exn option" where
  "store_call raises ev s =
     (case raises of
        Some e \<Rightarrow> (s, Some e)
      | None \<Rightarrow> (s\<lparr> store_log := store_log s @ [ev] \<rparr>, None))"

text \<open>\<^verbatim>\<open>_resolve_new_units\<close> and \<^verbatim>\<open>_resolve_remove_units\<close>. The order in which Python
  lists a set is not specified; the model lists it in order of first occurrence.\<close>

definition resolve_new_units :: "string list \<Rightarrow> string list \<Rightarrow> string list" where
  "resolve_new_units existing_unit_keys found_unit_keys =
     remdups (filter (\<lambda>k. k \<notin> set existing_unit_keys) found_unit_keys)"

definition resolve_remove_units :: "string list \<Rightarrow> string list \<Rightarrow> string list" where
  "resolve_remove_units existing_unit_keys found_unit_keys =
     remdups (filter (\<lambda>k. k \<notin> set found_unit_keys) existing_unit_keys)"

text \<open>\<^verbatim>\<open>_should_remove_missing\<close>; \<^verbatim>\<open>get_boolean\<close> of a key that is present.\<close>

definition should_remove_missing :: "(string \<rightharpoonup> bool) \<Rightarrow> bool" where
  "should_remove_missing cfg =
     (case cfg CONFIG_REMOVE_MISSING of
        None \<Rightarrow> DEFAULT_REMOVE_MISSING
      | Some b \<Rightarrow> b)"

text \<open>\<^verbatim>\<open>_content_unit\<close>: \<^verbatim>\<open>init_unit\<close>, then the copy to the unit's storage path; an
  \<^verbatim>\<open>IOError\<close> of the copy is logged and raised again, any other exception passes.\<close>

definition content_unit ::
  "env \<Rightarrow> resource \<Rightarrow> string \<Rightarrow> unit_key_dict \<Rightarrow> PackageSyncRun \<Rightarrow> PackageSyncRun \<times> (exn + unit)" where
  "content_unit ev res tid ukey s =
     (case init_unit_raises ev tid ukey (res_storage_path res) of
        Some e \<Rightarrow> (s, Inl e)
      | None \<Rightarrow>
          let u = \<lparr> type_id = tid, unit_key = ukey, storage_path = res_storage_path res \<rparr>;
              s1 = s\<lparr> store_log := store_log s @ [InitUnit u] \<rparr>
          in (case copy_raises ev res u of
                Some e \<Rightarrow> (s1, Inl e)
              | None \<Rightarrow> (s1, Inr u)))"

text \<open>The loop of \<^verbatim>\<open>_content_units_from_package\<close> over the package's resources.\<close>

fun content_units_loop ::
  "env \<Rightarrow> Package \<Rightarrow> resource list \<Rightarrow> unit list \<Rightarrow> PackageSyncRun \<Rightarrow> PackageSyncRun \<times> (exn + unit list)" where
  "content_units_loop ev pkg [] units s = (s, Inr units)"
| "content_units_loop ev pkg (res # rest) units s =
     (case content_unit ev res TYPE_DEB (Package_unit_key pkg) s of
        (s1, Inl e) \<Rightarrow> (s1, Inl e)
      | (s1, Inr u) \<Rightarrow> content_units_loop ev pkg rest (units @ [u]) s1)"

definition content_units_from_package ::
  "env \<Rightarrow> Package \<Rightarrow> PackageSyncRun \<Rightarrow> PackageSyncRun \<times> (exn + unit list)" where
  "content_units_from_package ev pkg s =
     (let pkg_resources = get_resources pkg
      in case download_resources_raises ev pkg of
           Some e \<Rightarrow> (s, Inl e)
         | None \<Rightarrow> content_units_loop ev pkg pkg_resources [] s)"

text \<open>The last loop of \<^verbatim>\<open>_add_new_package\<close>: save each unit and link it to the parent,
  when there is one.\<close>

fun save_units ::
  "env \<Rightarrow> unit option \<Rightarrow> unit list \<Rightarrow> PackageSyncRun \<Rightarrow> PackageSyncRun \<times> exn option" where
  "save_units ev parent [] s = (s, None)"
| "save_units ev parent (u # us) s =
     (case store_call (save_unit_raises ev u) (SaveUnit u) s of
        (s1, Some e) \<Rightarrow> (s1, Some e)
      | (s1, None) \<Rightarrow>
          (case parent of
             None \<Rightarrow> save_units ev parent us s1
           | Some p \<Rightarrow>
               (case store_call (link_unit_raises ev p u) (LinkUnit p u) s1 of
                  (s2, Some e) \<Rightarrow> (s2, Some e)
                | (s2, None) \<Rightarrow> save_units ev parent us s2)))"

text \<open>\<^verbatim>\<open>_add_new_package\<close>\<close>

definition add_new_package ::
  "env \<Rightarrow> Package \<Rightarrow> PackageSyncRun \<Rightarrow> PackageSyncRun \<times> exn option" where
  "add_new_package ev pkg s =
     (case content_units_from_package ev pkg s of
        (s1, Inl e) \<Rightarrow> (s1, Some e)
      | (s1, Inr units) \<Rightarrow>
          if package_type pkg = ''source''
          then (case init_unit_raises ev TYPE_DEB (Package_unit_key pkg) [] of
                  Some e \<Rightarrow> (s1, Some e)
                | None \<Rightarrow>
                    let parent = \<lparr> type_id = TYPE_DEB, unit_key = Package_unit_key pkg,
                                   storage_path = [] \<rparr>;
                        s2 = s1\<lparr> store_log := store_log s1 @ [InitUnit parent] \<rparr>
                    in (case store_call (save_unit_raises ev parent) (SaveUnit parent) s2 of
                          (s3, Some e) \<Rightarrow> (s3, Some e)
                        | (s3, None) \<Rightarrow> save_units ev (Some parent) units s3))
          else save_units ev None units s1)"

text \<open>
  One turn of the loop over \<^verbatim>\<open>new_unit_keys\<close> (lines 233 to 240): the \<^verbatim>\<open>try\<close> block
  adds the package and counts it as finished; \<^verbatim>\<open>except Exception\<close> hands the exception
  to \<^verbatim>\<open>add_failed_package\<close>; the progress update follows in both cases. An exception
  that the handler does not match, or that the handler itself raises, leaves the loop.
\<close>

definition import_one :: "env \<Rightarrow> Package \<Rightarrow> PackageSyncRun \<Rightarrow> PackageSyncRun \<times> exn option" where
  "import_one ev pkg s =
     (let (s1, raised) =
            (case add_new_package ev pkg s of
               (s1, Some e) \<Rightarrow> (s1, Some e)
             | (s1, None) \<Rightarrow>
                 (case packages_finished_count (progress_report s1) of
                    None \<Rightarrow> (s1, Some (Exception ''TypeError''))
                  | Some n \<Rightarrow>
                      (s1\<lparr> progress_report :=
                             (progress_report s1)\<lparr> packages_finished_count := Some (n + 1) \<rparr> \<rparr>,
                       None)))
      in case raised of
           None \<Rightarrow> (update_progress s1, None)
         | Some (SystemExiting m) \<Rightarrow> (s1, Some (SystemExiting m))
         | Some (Exception m) \<Rightarrow>
             (case add_failed_package (format_failure ev) pkg (Exception m) (progress_report s1) of
                Inl e \<Rightarrow> (s1, Some e)
              | Inr r \<Rightarrow> (update_progress (s1\<lparr> progress_report := r \<rparr>), None)))"

fun import_loop ::
  "env \<Rightarrow> Package dict \<Rightarrow> string list \<Rightarrow> PackageSyncRun \<Rightarrow> PackageSyncRun \<times> exn option" where
  "import_loop ev packages_by_key [] s = (s, None)"
| "import_loop ev packages_by_key (key # keys) s =
     (case dict_get packages_by_key key of
        Inl e \<Rightarrow> (s, Some e)
      | Inr pkg \<Rightarrow>
          (case import_one ev pkg s of
             (s1, Some e) \<Rightarrow> (s1, Some e)
           | (s1, None) \<Rightarrow> import_loop ev packages_by_key keys s1))"

text \<open>The loop over \<^verbatim>\<open>remove_unit_keys\<close> (lines 249 to 251).\<close>

fun remove_loop ::
  "env \<Rightarrow> unit dict \<Rightarrow> string list \<Rightarrow> PackageSyncRun \<Rightarrow> PackageSyncRun \<times> exn option" where
  "remove_loop ev existing_units_by_key [] s = (s, None)"
| "remove_loop ev existing_units_by_key (key # keys) s =
     (case dict_get existing_units_by_key key of
        Inl e \<Rightarrow> (s, Some e)
      | Inr doomed \<Rightarrow>
          (case store_call (remove_unit_raises ev doomed) (RemoveUnit doomed) s of
             (s1, Some e) \<Rightarrow> (s1, Some e)
           | (s1, None) \<Rightarrow> remove_loop ev existing_units_by_key keys s1))"

text \<open>\<^verbatim>\<open>_do_import_packages\<close>\<close>

definition do_import_packages :: "env \<Rightarrow> PackageSyncRun \<Rightarrow> PackageSyncRun \<times> exn option" where
  "do_import_packages ev s =
     (case create_import_downloader_raises ev of
        Some e \<Rightarrow> (s, Some e)
      | None \<Rightarrow>
          let packages_by_key = dict_of_pairs [] (map (\<lambda>p. (Package_key p, p)) (dist_packages s))
          in (case get_units_result ev of
                Inl e \<Rightarrow> (s, Some e)
              | Inr existing_units \<Rightarrow>
                  let existing_packages = map Package_from_unit existing_units;
                      existing_package_keys = map Package_key existing_packages;
                      new_unit_keys =
                        resolve_new_units existing_package_keys (dict_keys packages_by_key);
                      remove_unit_keys =
                        resolve_remove_units existing_package_keys (dict_keys packages_by_key);
                      s1 = s\<lparr> progress_report :=
                               (progress_report s)
                                 \<lparr> packages_total_count := Some (int (length new_unit_keys)),
                                   packages_finished_count := Some 0,
                                   packages_error_count := Some 0 \<rparr> \<rparr>;
                      s2 = update_progress s1
                  in (case import_loop ev packages_by_key new_unit_keys s2 of
                        (s3, Some e) \<Rightarrow> (s3, Some e)
                      | (s3, None) \<Rightarrow>
                          if should_remove_missing (config s3)
                          then
                            let existing_units_by_key =
                                  dict_of_pairs []
                                    (map (\<lambda>u. (unit_key_str (unit_key u), u)) existing_units)
                            in remove_loop ev existing_units_by_key remove_unit_keys s3
                          else (s3, None))))"

text \<open>\<^verbatim>\<open>_import_packages\<close>\<close>

definition import_packages :: "env \<Rightarrow> PackageSyncRun \<Rightarrow> PackageSyncRun \<times> exn option" where
  "import_packages ev s =
     (let s1 = s\<lparr> progress_report := (progress_report s)\<lparr> packages_state := STATE_RUNNING \<rparr> \<rparr>
      in case do_import_packages ev s1 of
           (s2, Some (SystemExiting m)) \<Rightarrow> (s2, Some (SystemExiting m))
         | (s2, Some (Exception m)) \<Rightarrow>
             (update_progress
                (s2\<lparr> progress_report :=
                      (progress_report s2)
                        \<lparr> packages_state := STATE_FAILED,
                          packages_error_message := Some ''Error retrieving packages'',
                          packages_exception := Some (Exception m),
                          packages_traceback := Some (TracebackOf (Exception m)),
                          packages_execution_time := Some (packages_seconds ev) \<rparr> \<rparr>),
              None)
         | (s2, None) \<Rightarrow>
             (update_progress
                (s2\<lparr> progress_report :=
                      (progress_report s2)
                        \<lparr> packages_state := STATE_SUCCESS,
                          packages_execution_time := Some (packages_seconds ev) \<rparr> \<rparr>),
              None))"

text \<open>The \<^verbatim>\<open>try\<close> block of lines 103 to 107: create the downloader, download the indexes.\<close>

definition fetch_indexes :: "env \<Rightarrow> exn + resource list" where
  "fetch_indexes ev =
     (case create_index_downloader_raises ev of
        Some e \<Rightarrow> Inl e
      | None \<Rightarrow> download_indexes_result ev)"

text \<open>What the two \<^verbatim>\<open>except Exception\<close> blocks of \<^verbatim>\<open>_update_dist\<close> do, up to the message.\<close>

definition index_failed :: "env \<Rightarrow> string \<Rightarrow> exn \<Rightarrow> PackageSyncRun \<Rightarrow> PackageSyncRun" where
  "index_failed ev msg e s =
     update_progress
       (s\<lparr> progress_report :=
            (progress_report s)
              \<lparr> state := STATE_FAILED,
                error_message := Some msg,
                exception := Some e,
                traceback := Some (TracebackOf e),
                execution_time := Some (index_seconds ev) \<rparr> \<rparr>)"

text \<open>\<^verbatim>\<open>_update_dist\<close>\<close>

definition update_dist :: "env \<Rightarrow> PackageSyncRun \<Rightarrow> PackageSyncRun \<times> exn option" where
  "update_dist ev s =
     (let s1 = update_progress
                 (s\<lparr> progress_report :=
                      (progress_report s)\<lparr> resource_state := Some STATE_RUNNING \<rparr> \<rparr>)
      in case fetch_indexes ev of
           Inl (SystemExiting m) \<Rightarrow> (s1, Some (SystemExiting m))
         | Inl (Exception m) \<Rightarrow>
             (index_failed ev ''Error downloading resources'' (Exception m) s1, None)
         | Inr fetched \<Rightarrow>
             (case update_from_resources_result ev fetched of
                (Some (SystemExiting m), pkgs) \<Rightarrow>
                  (s1\<lparr> dist_packages := pkgs \<rparr>, Some (SystemExiting m))
              | (Some (Exception m), pkgs) \<Rightarrow>
                  (index_failed ev ''Error parsing repository packages resources document''
                     (Exception m) (s1\<lparr> dist_packages := pkgs \<rparr>),
                   None)
              | (None, pkgs) \<Rightarrow>
                  (update_progress
                     (s1\<lparr> dist_packages := pkgs,
                          progress_report :=
                            (progress_report s1)
                              \<lparr> state := STATE_SUCCESS,
                                execution_time := Some (index_seconds ev) \<rparr> \<rparr>),
                   None)))"

text \<open>
  \<^verbatim>\<open>perform_sync\<close>. The \<^verbatim>\<open>try\<close> block ends in one of three ways: an exception in
  flight (\<open>Inl\<close>), the early \<^verbatim>\<open>return report\<close> of line 72 (\<open>Inr (Some report)\<close>), or
  its last statement (\<open>Inr None\<close>). The \<^verbatim>\<open>finally\<close> block runs in each of the three, and
  its own \<^verbatim>\<open>return\<close> replaces whatever was pending. \<open>perform_sync_try\<close> and
  \<open>perform_sync\<close> are the function when the calls that \<^verbatim>\<open>perform_sync\<close> makes itself
  (the logging of line 66, \<^verbatim>\<open>update_progress\<close> of line 77 and \<^verbatim>\<open>build_final_report\<close> of
  lines 71 and 79) do not raise and \<^verbatim>\<open>build_final_report\<close> is the one modelled above;
  \<open>perform_sync_with\<close> below has these calls as parameters.
\<close>

definition perform_sync_try ::
  "env \<Rightarrow> PackageSyncRun \<Rightarrow> PackageSyncRun \<times> (exn + final_report option)" where
  "perform_sync_try ev s =
     (case update_dist ev s of
        (s1, Some e) \<Rightarrow> (s1, Inl e)
      | (s1, None) \<Rightarrow>
          if length (dist_packages s1) = 0
          then (s1, Inr (Some (sync_build_final_report (progress_report s1))))
          else (case import_packages ev s1 of
                  (s2, Some e) \<Rightarrow> (s2, Inl e)
                | (s2, None) \<Rightarrow> (s2, Inr None)))"

definition perform_sync :: "env \<Rightarrow> PackageSyncRun \<Rightarrow> PackageSyncRun \<times> (exn + final_report)" where
  "perform_sync ev s =
     (let (s1, pending) = perform_sync_try ev s;
          s2 = update_progress s1;
          report = sync_build_final_report (progress_report s2)
      in (s2, Inr report))"

text \<open>
  The calls that \<^verbatim>\<open>perform_sync\<close> makes itself, as one execution answers them: what
  \<^verbatim>\<open>_LOG.info\<close> with \<^verbatim>\<open>self.repo.id\<close> raises before the \<^verbatim>\<open>try\<close> (line 66); what the
  sink raises when \<^verbatim>\<open>update_progress\<close> hands it a snapshot, as a function of the number
  of snapshots pushed before; and what \<^verbatim>\<open>self.progress_report.build_final_report()\<close>
  returns or raises for a report. The last is the method of the absent class
  \<^verbatim>\<open>SyncProgressReport\<close>, here a parameter.
\<close>

record report_calls =
  log_info_raises :: "exn option"
  set_progress_raises :: "nat \<Rightarrow> exn option"
  final_report_call :: "SyncProgressReport \<Rightarrow> exn + final_report"

text \<open>The calls as \<open>perform_sync\<close> above takes them.\<close>

definition reliable_calls :: report_calls where
  "reliable_calls =
     \<lparr> log_info_raises = None,
       set_progress_raises = (\<lambda>n. None),
       final_report_call = (\<lambda>r. Inr (sync_build_final_report r)) \<rparr>"

text \<open>The \<^verbatim>\<open>try\<close> block of \<^verbatim>\<open>perform_sync\<close> (lines 69 to 74).\<close>

definition perform_sync_try_with ::
  "report_calls \<Rightarrow> env \<Rightarrow> PackageSyncRun \<Rightarrow> PackageSyncRun \<times> (exn + final_report option)" where
  "perform_sync_try_with c ev s =
     (case update_dist ev s of
        (s1, Some e) \<Rightarrow> (s1, Inl e)
      | (s1, None) \<Rightarrow>
          if length (dist_packages s1) = 0
          then (case final_report_call c (progress_report s1) of
                  Inl e \<Rightarrow> (s1, Inl e)
                | Inr report \<Rightarrow> (s1, Inr (Some report)))
          else (case import_packages ev s1 of
                  (s2, Some e) \<Rightarrow> (s2, Inl e)
                | (s2, None) \<Rightarrow> (s2, Inr None)))"

text \<open>
  The \<^verbatim>\<open>finally\<close> block (lines 77 to 80), entered with the state and the pending
  outcome of the \<^verbatim>\<open>try\<close> block. An exception raised by \<^verbatim>\<open>update_progress\<close> or by
  \<^verbatim>\<open>build_final_report\<close> here replaces whatever was pending and leaves the function;
  otherwise \<^verbatim>\<open>return report\<close> does.
\<close>

definition finally_block ::
  "report_calls \<Rightarrow> PackageSyncRun \<times> (exn + final_report option)
     \<Rightarrow> PackageSyncRun \<times> (exn + final_report)" where
  "finally_block c t =
     (case t of
        (s1, pending) \<Rightarrow>
          (case set_progress_raises c (length (progress_log s1)) of
             Some e \<Rightarrow> (s1, Inl e)
           | None \<Rightarrow>
               let s2 = update_progress s1
               in (case final_report_call c (progress_report s2) of
                     Inl e \<Rightarrow> (s2, Inl e)
                   | Inr report \<Rightarrow> (s2, Inr report))))"

text \<open>\<^verbatim>\<open>perform_sync\<close> (lines 66 to 80).\<close>

definition perform_sync_with ::
  "report_calls \<Rightarrow> env \<Rightarrow> PackageSyncRun \<Rightarrow> PackageSyncRun \<times> (exn + final_report)" where
  "perform_sync_with c ev s =
     (case log_info_raises c of
        Some e \<Rightarrow> (s, Inl e)
      | None \<Rightarrow> finally_block c (perform_sync_try_with c ev s))"

section \<open>Notions used in the statements\<close>

text \<open>The run with further store writes appended to its log.\<close>

definition appends :: "PackageSyncRun \<Rightarrow> store_event list \<Rightarrow> PackageSyncRun" where
  "appends s evs = s\<lparr> store_log := store_log s @ evs \<rparr>"

fun is_remove :: "store_event \<Rightarrow> bool" where
  "is_remove (RemoveUnit u) = True"
| "is_remove _ = False"

text \<open>A list of store writes without a removal.\<close>

definition adds_only :: "store_event list \<Rightarrow> bool" where
  "adds_only evs = (filter is_remove evs = [])"

text \<open>
  What \<^verbatim>\<open>_add_new_package\<close> raises for a package and which store writes it makes: both
  depend on the collaborators and the package only (lemma \<open>add_new_package_eq\<close>), so
  they are read off a run from the initial state.
\<close>

definition add_outcome :: "env \<Rightarrow> Package \<Rightarrow> exn option" where
  "add_outcome ev pkg = snd (add_new_package ev pkg (PackageSyncRun_init Map.empty))"

definition add_events :: "env \<Rightarrow> Package \<Rightarrow> store_event list" where
  "add_events ev pkg = store_log (fst (add_new_package ev pkg (PackageSyncRun_init Map.empty)))"

text \<open>An outcome that no \<^verbatim>\<open>except Exception\<close> handler matches.\<close>

fun exits :: "exn option \<Rightarrow> bool" where
  "exits (Some (SystemExiting m)) = True"
| "exits _ = False"

text \<open>The key names a package whose import raises nothing.\<close>

definition imported :: "env \<Rightarrow> Package dict \<Rightarrow> string \<Rightarrow> bool" where
  "imported ev packages_by_key k =
     (case dict_get packages_by_key k of
        Inl e \<Rightarrow> False
      | Inr pkg \<Rightarrow> add_outcome ev pkg = None)"

text \<open>The keys of the map of individual errors.\<close>

definition error_keys :: "SyncProgressReport \<Rightarrow> string set" where
  "error_keys r = (case packages_individual_errors r of None \<Rightarrow> {} | Some d \<Rightarrow> fst ` set d)"

text \<open>Finished count plus error count, as a poller reads them from a snapshot.\<close>

definition processed_count :: "SyncProgressReport \<Rightarrow> int option" where
  "processed_count r =
     (case (packages_finished_count r, packages_error_count r) of
        (Some a, Some b) \<Rightarrow> Some (a + b)
      | _ \<Rightarrow> None)"

text \<open>The local variables of \<^verbatim>\<open>_do_import_packages\<close>, as functions of what they are
  computed from.\<close>

definition packages_by_key_of :: "Package list \<Rightarrow> Package dict" where
  "packages_by_key_of pkgs = dict_of_pairs [] (map (\<lambda>p. (Package_key p, p)) pkgs)"

definition existing_keys_of :: "unit list \<Rightarrow> string list" where
  "existing_keys_of existing = map Package_key (map Package_from_unit existing)"

definition new_unit_keys_of :: "unit list \<Rightarrow> Package list \<Rightarrow> string list" where
  "new_unit_keys_of existing pkgs =
     resolve_new_units (existing_keys_of existing) (dict_keys (packages_by_key_of pkgs))"

definition remove_unit_keys_of :: "unit list \<Rightarrow> Package list \<Rightarrow> string list" where
  "remove_unit_keys_of existing pkgs =
     resolve_remove_units (existing_keys_of existing) (dict_keys (packages_by_key_of pkgs))"

definition existing_units_by_key_of :: "unit list \<Rightarrow> unit dict" where
  "existing_units_by_key_of existing =
     dict_of_pairs [] (map (\<lambda>u. (unit_key_str (unit_key u), u)) existing)"

text \<open>The run after lines 226 to 229: the counts are set and the snapshot is pushed.\<close>

definition counts_set :: "unit list \<Rightarrow> PackageSyncRun \<Rightarrow> PackageSyncRun" where
  "counts_set existing s =
     update_progress
       (s\<lparr> progress_report :=
            (progress_report s)
              \<lparr> packages_total_count :=
                  Some (int (length (new_unit_keys_of existing (dist_packages s)))),
                packages_finished_count := Some 0,
                packages_error_count := Some 0 \<rparr> \<rparr>)"

section \<open>An example repository\<close>

text \<open>
  The scenario of the spec: the remote index advertises \<^verbatim>\<open>A-1.0-alice\<close> and
  \<^verbatim>\<open>B-2.0-bob\<close>, the local store holds \<^verbatim>\<open>A-1.0-alice\<close> and \<^verbatim>\<open>C-1.0-carol\<close>. The
  collaborators raise only where the arguments of \<open>example_env\<close> say so: the outcome
  of fetching the indexes, and what downloading the resources of \<^verbatim>\<open>B\<close> raises.
\<close>

definition example_key :: "string \<Rightarrow> string \<Rightarrow> string \<Rightarrow> unit_key_dict" where
  "example_key n v m = \<lparr> uk_package = n, uk_version = v, uk_maintainer = m \<rparr>"

definition example_package :: "string \<Rightarrow> string \<Rightarrow> string \<Rightarrow> Package" where
  "example_package n v m =
     \<lparr> key_fields = example_key n v m,
       package_type = ''package'',
       resources = [\<lparr> res_storage_path = n @ ''.deb'', res_path = ''/tmp/'' @ n @ ''.deb'' \<rparr>] \<rparr>"

definition example_unit :: "string \<Rightarrow> string \<Rightarrow> string \<Rightarrow> unit" where
  "example_unit n v m =
     \<lparr> type_id = TYPE_DEB, unit_key = example_key n v m, storage_path = n @ ''.deb'' \<rparr>"

definition example_env ::
  "exn + resource list \<Rightarrow> Package list \<Rightarrow> unit list \<Rightarrow> exn option \<Rightarrow> env" where
  "example_env fetched remote existing b_raises =
     \<lparr> create_index_downloader_raises = None,
       create_import_downloader_raises = None,
       download_indexes_result = fetched,
       update_from_resources_result = (\<lambda>rs. (None, remote)),
       index_seconds = 2,
       packages_seconds = 5,
       get_units_result = Inr existing,
       download_resources_raises =
         (\<lambda>p. if uk_package (key_fields p) = ''B'' then b_raises else None),
       init_unit_raises = (\<lambda>t k p. None),
       copy_raises = (\<lambda>r u. None),
       save_unit_raises = (\<lambda>u. None),
       link_unit_raises = (\<lambda>p u. None),
       remove_unit_raises = (\<lambda>u. None),
       format_failure = (\<lambda>e. case e of Exception m \<Rightarrow> m | SystemExiting m \<Rightarrow> m) \<rparr>"

definition example_remote :: "Package list" where
  "example_remote = [example_package ''A'' ''1.0'' ''alice'', example_package ''B'' ''2.0'' ''bob'']"

definition example_existing :: "unit list" where
  "example_existing = [example_unit ''A'' ''1.0'' ''alice'', example_unit ''C'' ''1.0'' ''carol'']"

text \<open>A run whose index has been parsed, with the option \<^verbatim>\<open>remove_missing\<close> given.\<close>

definition example_run :: "bool \<Rightarrow> PackageSyncRun" where
  "example_run remove =
     (PackageSyncRun_init [CONFIG_REMOVE_MISSING \<mapsto> remove])\<lparr> dist_packages := example_remote \<rparr>"

text \<open>A publish report of the server: the index took 2 seconds, the import has not run.\<close>

definition example_publish_report :: PublishProgressReport where
  "example_publish_report =
     (PublishProgressReport_init (Some (Conduit ''conduit'')))
       \<lparr> metadata_state := PStr STATE_SUCCESS, metadata_execution_time := PInt 2 \<rparr>"

text \<open>Calls of \<^verbatim>\<open>perform_sync\<close> whose sink raises at the push with the given number.\<close>

definition example_calls :: "nat \<Rightarrow> report_calls" where
  "example_calls n =
     reliable_calls
       \<lparr> set_progress_raises :=
           (\<lambda>k. if k = n then Some (Exception ''ImporterConduitException'') else None) \<rparr>"

section \<open>Lemmas\<close>

subsection \<open>Dictionaries\<close>

lemma appends_Nil: "appends s [] = s"
  by (simp add: appends_def)

lemma appends_appends: "appends (appends s a) b = appends s (a @ b)"
  by (simp add: appends_def)

lemma appends_sel:
  "progress_report (appends s evs) = progress_report s"
  "dist_packages (appends s evs) = dist_packages s"
  "config (appends s evs) = config s"
  "progress_log (appends s evs) = progress_log s"
  "store_log (appends s evs) = store_log s @ evs"
  by (simp_all add: appends_def)

lemma map_of_dict_set: "map_of (dict_set k v d) = (map_of d)(k \<mapsto> v)"
  by (induction d) (auto simp: fun_eq_iff)

lemma keys_dict_set: "fst ` set (dict_set k v d) = insert k (fst ` set d)"
  by (induction d) auto

lemma distinct_dict_set: "distinct (map fst d) \<Longrightarrow> distinct (map fst (dict_set k v d))"
  by (induction d) (auto simp: keys_dict_set)

lemma keys_dict_of_pairs:
  "fst ` set (dict_of_pairs d ps) = fst ` set d \<union> fst ` set ps"
  by (induction ps arbitrary: d) (auto simp: keys_dict_set)

lemma distinct_dict_of_pairs:
  "distinct (map fst d) \<Longrightarrow> distinct (map fst (dict_of_pairs d ps))"
  by (induction ps arbitrary: d) (auto simp: distinct_dict_set)

lemma map_of_dict_of_pairs:
  "map_of (dict_of_pairs d ps) = map_of d ++ map_of (rev ps)"
  by (induction ps arbitrary: d) (auto simp: map_of_dict_set fun_eq_iff map_add_def split: option.splits)

lemma map_of_rev_distinct: "distinct (map fst ps) \<Longrightarrow> map_of (rev ps) = map_of ps"
proof -
  assume d: "distinct (map fst ps)"
  then have "distinct (map fst (rev ps))" by (simp add: rev_map [symmetric])
  moreover have "set (rev ps) = set ps" by simp
  ultimately show ?thesis using d map_of_inject_set by blast
qed

lemma set_dict_set: "set (dict_set k v d) \<subseteq> insert (k, v) (set d)"
  by (induction d) auto

lemma set_dict_of_pairs: "set (dict_of_pairs d ps) \<subseteq> set d \<union> set ps"
proof (induction ps arbitrary: d)
  case Nil
  show ?case by simp
next
  case (Cons p ps)
  have "set (dict_of_pairs (dict_set (fst p) (snd p) d) ps)
          \<subseteq> set (dict_set (fst p) (snd p) d) \<union> set ps"
    by (rule Cons.IH)
  also have "\<dots> \<subseteq> insert (fst p, snd p) (set d) \<union> set ps"
    using set_dict_set [of "fst p" "snd p" d] by blast
  finally show ?case by auto
qed

subsection \<open>Store writes of one package\<close>

lemma adds_only_simps:
  "adds_only []"
  "adds_only (InitUnit u # evs) = adds_only evs"
  "adds_only (SaveUnit u # evs) = adds_only evs"
  "adds_only (LinkUnit p u # evs) = adds_only evs"
  "adds_only (a @ b) = (adds_only a \<and> adds_only b)"
  by (simp_all add: adds_only_def)

lemma store_call_eq:
  "store_call r e s = (appends s (if r = None then [e] else []), r)"
  by (cases r) (simp_all add: store_call_def appends_def)

lemma content_unit_effect:
  "\<exists>evs r. adds_only evs \<and> (\<forall>s. content_unit ev res tid k s = (appends s evs, r))"
proof (cases "init_unit_raises ev tid k (res_storage_path res)")
  case (Some e)
  then have "\<forall>s. content_unit ev res tid k s = (appends s [], Inl e)"
    by (simp add: content_unit_def appends_def)
  then show ?thesis using adds_only_simps(1) by blast
next
  case None
  define u where "u = \<lparr> type_id = tid, unit_key = k, storage_path = res_storage_path res \<rparr>"
  have a: "adds_only [InitUnit u]" by (simp add: adds_only_simps)
  show ?thesis
  proof (cases "copy_raises ev res u")
    case (Some e)
    with None have "\<forall>s. content_unit ev res tid k s = (appends s [InitUnit u], Inl e)"
      by (simp add: content_unit_def appends_def u_def Let_def)
    then show ?thesis using a by blast
  next
    case None2: None
    with None have "\<forall>s. content_unit ev res tid k s = (appends s [InitUnit u], Inr u)"
      by (simp add: content_unit_def appends_def u_def Let_def)
    then show ?thesis using a by blast
  qed
qed

lemma content_units_loop_effect:
  "\<exists>evs r. adds_only evs \<and> (\<forall>s. content_units_loop ev pkg rs units s = (appends s evs, r))"
proof (induction rs arbitrary: units)
  case Nil
  have "\<forall>s. content_units_loop ev pkg [] units s = (appends s [], Inr units)"
    by (simp add: appends_Nil)
  then show ?case using adds_only_simps(1) by blast
next
  case (Cons res rest)
  obtain evs1 r1 where a1: "adds_only evs1" and h1:
    "\<forall>s. content_unit ev res TYPE_DEB (Package_unit_key pkg) s = (appends s evs1, r1)"
    using content_unit_effect by blast
  show ?case
  proof (cases r1)
    case (Inl e)
    with h1 have "\<forall>s. content_units_loop ev pkg (res # rest) units s = (appends s evs1, Inl e)"
      by simp
    then show ?thesis using a1 by blast
  next
    case (Inr u)
    obtain evs2 r2 where a2: "adds_only evs2" and h2:
      "\<forall>s. content_units_loop ev pkg rest (units @ [u]) s = (appends s evs2, r2)"
      using Cons.IH by blast
    from h1 h2 Inr
    have "\<forall>s. content_units_loop ev pkg (res # rest) units s = (appends s (evs1 @ evs2), r2)"
      by (simp add: appends_appends)
    moreover have "adds_only (evs1 @ evs2)"
      using a1 a2 by (simp add: adds_only_simps)
    ultimately show ?thesis by blast
  qed
qed

lemma save_units_effect:
  "\<exists>evs r. adds_only evs \<and> (\<forall>s. save_units ev parent us s = (appends s evs, r))"
proof (induction us)
  case Nil
  have "\<forall>s. save_units ev parent [] s = (appends s [], None)"
    by (simp add: appends_Nil)
  then show ?case using adds_only_simps(1) by blast
next
  case (Cons u us)
  obtain evs3 r3 where a3: "adds_only evs3"
    and h3: "\<forall>s. save_units ev parent us s = (appends s evs3, r3)"
    using Cons.IH by blast
  show ?case
  proof (cases "save_unit_raises ev u")
    case (Some e)
    then have "\<forall>s. save_units ev parent (u # us) s = (appends s [], Some e)"
      by (simp add: store_call_eq)
    then show ?thesis using adds_only_simps(1) by blast
  next
    case None
    show ?thesis
    proof (cases parent)
      case None2: None
      with h3 None
      have "\<forall>s. save_units ev parent (u # us) s = (appends s ([SaveUnit u] @ evs3), r3)"
        by (simp add: store_call_eq appends_appends)
      moreover have "adds_only ([SaveUnit u] @ evs3)"
        using a3 by (simp add: adds_only_simps)
      ultimately show ?thesis by blast
    next
      case (Some p)
      show ?thesis
      proof (cases "link_unit_raises ev p u")
        case None3: None
        with h3 None Some
        have "\<forall>s. save_units ev parent (u # us) s
                = (appends s ([SaveUnit u, LinkUnit p u] @ evs3), r3)"
          by (simp add: store_call_eq appends_appends)
        moreover have "adds_only ([SaveUnit u, LinkUnit p u] @ evs3)"
          using a3 by (simp add: adds_only_simps)
        ultimately show ?thesis by blast
      next
        case Some2: (Some e)
        with None Some
        have "\<forall>s. save_units ev parent (u # us) s = (appends s [SaveUnit u], Some e)"
          by (simp add: store_call_eq appends_appends)
        moreover have "adds_only [SaveUnit u]"
          by (simp add: adds_only_simps)
        ultimately show ?thesis by blast
      qed
    qed
  qed
qed

lemma add_new_package_effect:
  "\<exists>evs r. adds_only evs \<and> (\<forall>s. add_new_package ev pkg s = (appends s evs, r))"
proof -
  obtain evs1 r1 where a1: "adds_only evs1"
    and h1: "\<forall>s. content_units_from_package ev pkg s = (appends s evs1, r1)"
  proof (cases "download_resources_raises ev pkg")
    case (Some e)
    then have "\<forall>s. content_units_from_package ev pkg s = (appends s [], Inl e)"
      by (simp add: content_units_from_package_def appends_Nil)
    then show ?thesis using that adds_only_simps(1) by blast
  next
    case None
    obtain evs r where "adds_only evs"
      and "\<forall>s. content_units_loop ev pkg (get_resources pkg) [] s = (appends s evs, r)"
      using content_units_loop_effect by blast
    with None show ?thesis using that
      by (simp add: content_units_from_package_def)
  qed
  show ?thesis
  proof (cases r1)
    case (Inl e)
    with h1 have "\<forall>s. add_new_package ev pkg s = (appends s evs1, Some e)"
      by (simp add: add_new_package_def)
    then show ?thesis using a1 by blast
  next
    case (Inr units)
    show ?thesis
    proof (cases "package_type pkg = ''source''")
      case False
      obtain evs2 r2 where a2: "adds_only evs2"
        and h2: "\<forall>s. save_units ev None units s = (appends s evs2, r2)"
        using save_units_effect by blast
      from h1 h2 Inr False
      have "\<forall>s. add_new_package ev pkg s = (appends s (evs1 @ evs2), r2)"
        by (simp add: add_new_package_def appends_appends)
      moreover have "adds_only (evs1 @ evs2)"
        using a1 a2 by (simp add: adds_only_simps)
      ultimately show ?thesis by blast
    next
      case True
      define parent where
        "parent = \<lparr> type_id = TYPE_DEB, unit_key = Package_unit_key pkg, storage_path = [] \<rparr>"
      show ?thesis
      proof (cases "init_unit_raises ev TYPE_DEB (Package_unit_key pkg) []")
        case (Some e)
        with h1 Inr True have "\<forall>s. add_new_package ev pkg s = (appends s evs1, Some e)"
          by (simp add: add_new_package_def)
        then show ?thesis using a1 by blast
      next
        case None
        show ?thesis
        proof (cases "save_unit_raises ev parent")
          case (Some e)
          with h1 Inr True None
          have "\<forall>s. add_new_package ev pkg s = (appends s (evs1 @ [InitUnit parent]), Some e)"
            by (simp add: add_new_package_def parent_def store_call_eq appends_def Let_def)
          moreover have "adds_only (evs1 @ [InitUnit parent])"
            using a1 by (simp add: adds_only_simps)
          ultimately show ?thesis by blast
        next
          case None2: None
          obtain evs2 r2 where a2: "adds_only evs2"
            and h2: "\<forall>s. save_units ev (Some parent) units s = (appends s evs2, r2)"
            using save_units_effect by blast
          have "\<forall>s. add_new_package ev pkg s
                  = (appends s (evs1 @ [InitUnit parent, SaveUnit parent] @ evs2), r2)"
          proof
            fix s
            have "add_new_package ev pkg s
                    = save_units ev (Some parent) units
                        (appends s (evs1 @ [InitUnit parent, SaveUnit parent]))"
              using h1 Inr True None None2
              by (simp add: add_new_package_def parent_def store_call_eq appends_def Let_def)
            then show "add_new_package ev pkg s
                  = (appends s (evs1 @ [InitUnit parent, SaveUnit parent] @ evs2), r2)"
              using h2 by (simp add: appends_appends)
          qed
          moreover have "adds_only (evs1 @ [InitUnit parent, SaveUnit parent] @ evs2)"
            using a1 a2 by (simp add: adds_only_simps)
          ultimately show ?thesis by blast
        qed
      qed
    qed
  qed
qed

lemma add_new_package_eq:
  "add_new_package ev pkg s = (appends s (add_events ev pkg), add_outcome ev pkg)"
proof -
  obtain evs r where h: "\<forall>s. add_new_package ev pkg s = (appends s evs, r)"
    using add_new_package_effect by blast
  have "add_events ev pkg = evs"
    using h by (simp add: add_events_def appends_def PackageSyncRun_init_def)
  moreover have "add_outcome ev pkg = r"
    using h by (simp add: add_outcome_def)
  ultimately show ?thesis using h by simp
qed

lemma adds_only_add_events: "adds_only (add_events ev pkg)"
proof -
  obtain evs r where a: "adds_only evs" and h: "\<forall>s. add_new_package ev pkg s = (appends s evs, r)"
    using add_new_package_effect by blast
  have "add_events ev pkg = evs"
    using h by (simp add: add_events_def appends_def PackageSyncRun_init_def)
  with a show ?thesis by simp
qed

subsection \<open>One turn of the import loop\<close>

lemma import_one_ok:
  assumes "add_outcome ev pkg = None"
    and "packages_finished_count (progress_report s) = Some f"
  shows "import_one ev pkg s =
     (update_progress
        ((appends s (add_events ev pkg))
           \<lparr> progress_report := (progress_report s)\<lparr> packages_finished_count := Some (f + 1) \<rparr> \<rparr>),
      None)"
  using assms by (simp add: import_one_def add_new_package_eq appends_sel)

lemma import_one_failed:
  assumes "add_outcome ev pkg = Some (Exception m)"
    and "packages_error_count (progress_report s) = Some e"
  shows "import_one ev pkg s =
     (update_progress
        ((appends s (add_events ev pkg))
           \<lparr> progress_report :=
               (progress_report s)
                 \<lparr> packages_error_count := Some (e + 1),
                   packages_individual_errors :=
                     Some (dict_set (Package_key pkg) (format_failure ev (Exception m))
                             (case packages_individual_errors (progress_report s) of
                                None \<Rightarrow> [] | Some d \<Rightarrow> d)) \<rparr> \<rparr>),
      None)"
  using assms by (simp add: import_one_def add_new_package_eq appends_sel add_failed_package_def)

lemma import_one_exits:
  assumes "add_outcome ev pkg = Some (SystemExiting m)"
  shows "import_one ev pkg s = (appends s (add_events ev pkg), Some (SystemExiting m))"
  using assms by (simp add: import_one_def add_new_package_eq)

lemma import_one_step:
  assumes nx: "\<not> exits (add_outcome ev pkg)"
    and f: "packages_finished_count (progress_report s) = Some f"
    and e: "packages_error_count (progress_report s) = Some e"
  shows "\<exists>s1. import_one ev pkg s = (s1, None)
      \<and> packages_finished_count (progress_report s1)
          = Some (f + (if add_outcome ev pkg = None then 1 else 0))
      \<and> packages_error_count (progress_report s1)
          = Some (e + (if add_outcome ev pkg = None then 0 else 1))
      \<and> packages_state (progress_report s1) = packages_state (progress_report s)
      \<and> progress_log s1 = progress_log s @ [progress_report s1]
      \<and> error_keys (progress_report s1)
          = error_keys (progress_report s)
            \<union> (if add_outcome ev pkg = None then {} else {Package_key pkg})"
proof (cases "add_outcome ev pkg")
  case None
  show ?thesis
    using None f e
    by (simp add: import_one_ok [OF None f] update_progress_def appends_sel error_keys_def)
next
  case (Some x)
  then obtain m where m: "add_outcome ev pkg = Some (Exception m)"
    using nx by (cases x) auto
  show ?thesis
    using m f e
    by (auto simp: import_one_failed [OF m e] update_progress_def appends_sel error_keys_def
          keys_dict_set split: option.splits)
qed

subsection \<open>The import loop\<close>

lemma import_loop_all:
  assumes "\<forall>k\<in>set keys. \<exists>pkg. dict_get pbk k = Inr pkg \<and> Package_key pkg = k
               \<and> \<not> exits (add_outcome ev pkg)"
    and "packages_finished_count (progress_report s) = Some f"
    and "packages_error_count (progress_report s) = Some e"
  shows "\<exists>s' snaps. import_loop ev pbk keys s = (s', None)
      \<and> packages_finished_count (progress_report s')
          = Some (f + int (length (filter (imported ev pbk) keys)))
      \<and> packages_error_count (progress_report s')
          = Some (e + int (length (filter (\<lambda>k. \<not> imported ev pbk k) keys)))
      \<and> packages_state (progress_report s') = packages_state (progress_report s)
      \<and> progress_log s' = progress_log s @ snaps
      \<and> map processed_count snaps = map (\<lambda>i. Some (f + e + 1 + int i)) [0..<length keys]
      \<and> error_keys (progress_report s')
          = error_keys (progress_report s) \<union> {k \<in> set keys. \<not> imported ev pbk k}"
  using assms
proof (induction keys arbitrary: s f e)
  case Nil
  then show ?case by simp
next
  case (Cons k keys)
  from Cons.prems(1) obtain pkg where pkg: "dict_get pbk k = Inr pkg" "Package_key pkg = k"
    and nx: "\<not> exits (add_outcome ev pkg)"
    by auto
  let ?ok = "add_outcome ev pkg = None"
  have imp: "imported ev pbk k = ?ok"
    using pkg by (simp add: imported_def)
  obtain s1 where s1: "import_one ev pkg s = (s1, None)"
    and f1: "packages_finished_count (progress_report s1) = Some (f + (if ?ok then 1 else 0))"
    and e1: "packages_error_count (progress_report s1) = Some (e + (if ?ok then 0 else 1))"
    and st1: "packages_state (progress_report s1) = packages_state (progress_report s)"
    and log1: "progress_log s1 = progress_log s @ [progress_report s1]"
    and ek1: "error_keys (progress_report s1)
                = error_keys (progress_report s) \<union> (if ?ok then {} else {Package_key pkg})"
    using import_one_step [OF nx Cons.prems(2) Cons.prems(3)] by blast
  have rest: "\<forall>k\<in>set keys. \<exists>pkg. dict_get pbk k = Inr pkg \<and> Package_key pkg = k
               \<and> \<not> exits (add_outcome ev pkg)"
    using Cons.prems(1) by simp
  obtain s' snaps where loop: "import_loop ev pbk keys s1 = (s', None)"
    and f': "packages_finished_count (progress_report s')
          = Some (f + (if ?ok then 1 else 0) + int (length (filter (imported ev pbk) keys)))"
    and e': "packages_error_count (progress_report s')
          = Some (e + (if ?ok then 0 else 1) + int (length (filter (\<lambda>k. \<not> imported ev pbk k) keys)))"
    and st': "packages_state (progress_report s') = packages_state (progress_report s1)"
    and log': "progress_log s' = progress_log s1 @ snaps"
    and pc': "map processed_count snaps
          = map (\<lambda>i. Some (f + (if ?ok then 1 else 0) + (e + (if ?ok then 0 else 1)) + 1 + int i))
              [0..<length keys]"
    and ek': "error_keys (progress_report s')
          = error_keys (progress_report s1) \<union> {k \<in> set keys. \<not> imported ev pbk k}"
    using Cons.IH [OF rest f1 e1] by blast
  have run: "import_loop ev pbk (k # keys) s = (s', None)"
    using pkg s1 loop by simp
  have pc1: "processed_count (progress_report s1) = Some (f + e + 1)"
    using f1 e1 by (simp add: processed_count_def)
  have upt: "[0..<length (k # keys)] = 0 # map Suc [0..<length keys]"
    by (simp add: upt_conv_Cons map_Suc_upt del: upt_Suc)
  have pc: "map processed_count (progress_report s1 # snaps)
          = map (\<lambda>i. Some (f + e + 1 + int i)) [0..<length (k # keys)]"
    unfolding upt using pc1 pc' by (simp add: comp_def algebra_simps)
  have c1: "packages_finished_count (progress_report s')
          = Some (f + int (length (filter (imported ev pbk) (k # keys))))"
    using f' imp by simp
  have c2: "packages_error_count (progress_report s')
          = Some (e + int (length (filter (\<lambda>k. \<not> imported ev pbk k) (k # keys))))"
    using e' imp by simp
  have c3: "packages_state (progress_report s') = packages_state (progress_report s)"
    using st' st1 by simp
  have c4: "progress_log s' = progress_log s @ (progress_report s1 # snaps)"
    using log' log1 by simp
  have c5: "error_keys (progress_report s')
          = error_keys (progress_report s) \<union> {x \<in> set (k # keys). \<not> imported ev pbk x}"
    using ek' ek1 imp pkg(2) by auto
  show ?case
    using run c1 c2 c3 c4 pc c5 by blast
qed

lemma import_one_store:
  "\<exists>evs. adds_only evs \<and> store_log (fst (import_one ev pkg s)) = store_log s @ evs
     \<and> config (fst (import_one ev pkg s)) = config s"
proof -
  have a: "adds_only (add_events ev pkg)" by (rule adds_only_add_events)
  have "store_log (fst (import_one ev pkg s)) = store_log s @ add_events ev pkg
      \<and> config (fst (import_one ev pkg s)) = config s"
    by (auto simp: import_one_def add_new_package_eq appends_sel update_progress_def
          add_failed_package_def split: option.splits exn.splits sum.splits)
  with a show ?thesis by blast
qed

lemma import_loop_store:
  "\<exists>evs. adds_only evs \<and> store_log (fst (import_loop ev pbk keys s)) = store_log s @ evs
     \<and> config (fst (import_loop ev pbk keys s)) = config s"
proof (induction keys arbitrary: s)
  case Nil
  show ?case using adds_only_simps(1) by (intro exI [of _ "[]"]) simp
next
  case (Cons k keys)
  show ?case
  proof (cases "dict_get pbk k")
    case (Inl e)
    then show ?thesis using adds_only_simps(1) by (intro exI [of _ "[]"]) simp
  next
    case (Inr pkg)
    obtain s1 r1 where s1: "import_one ev pkg s = (s1, r1)" by (cases "import_one ev pkg s")
    obtain evs1 where a1: "adds_only evs1" and l1: "store_log s1 = store_log s @ evs1"
      and c1: "config s1 = config s"
      using import_one_store [of ev pkg s] s1 by auto
    show ?thesis
    proof (cases r1)
      case (Some e)
      with Inr s1 have "import_loop ev pbk (k # keys) s = (s1, Some e)" by simp
      with a1 l1 c1 show ?thesis by auto
    next
      case None
      with Inr s1 have eq: "import_loop ev pbk (k # keys) s = import_loop ev pbk keys s1" by simp
      obtain evs2 where a2: "adds_only evs2"
        and l2: "store_log (fst (import_loop ev pbk keys s1)) = store_log s1 @ evs2"
        and c2: "config (fst (import_loop ev pbk keys s1)) = config s1"
        using Cons.IH by blast
      have "adds_only (evs1 @ evs2)" using a1 a2 by (simp add: adds_only_simps)
      moreover have "store_log (fst (import_loop ev pbk (k # keys) s)) = store_log s @ evs1 @ evs2"
        using eq l1 l2 by simp
      moreover have "config (fst (import_loop ev pbk (k # keys) s)) = config s"
        using eq c1 c2 by simp
      ultimately show ?thesis by blast
    qed
  qed
qed

lemma import_one_pushes:
  "import_one ev pkg s = (s1, None) \<Longrightarrow> length (progress_log s1) = Suc (length (progress_log s))"
  by (auto simp: import_one_def add_new_package_eq appends_sel update_progress_def
        add_failed_package_def split: option.splits exn.splits sum.splits)

lemma import_loop_pushes:
  "import_loop ev pbk keys s = (s', None)
     \<Longrightarrow> length (progress_log s') = length (progress_log s) + length keys"
proof (induction keys arbitrary: s)
  case Nil
  then show ?case by simp
next
  case (Cons k keys)
  from Cons.prems obtain pkg s1 where "dict_get pbk k = Inr pkg"
    and s1: "import_one ev pkg s = (s1, None)" and rest: "import_loop ev pbk keys s1 = (s', None)"
    by (auto split: sum.splits prod.splits option.splits)
  then show ?case
    using Cons.IH [OF rest] import_one_pushes [OF s1] by simp
qed

lemma import_one_state:
  "packages_state (progress_report (fst (import_one ev pkg s))) = packages_state (progress_report s)"
  by (auto simp: import_one_def add_new_package_eq appends_sel update_progress_def
        add_failed_package_def split: option.splits exn.splits sum.splits)

lemma import_loop_state:
  "packages_state (progress_report (fst (import_loop ev pbk keys s)))
     = packages_state (progress_report s)"
proof (induction keys arbitrary: s)
  case Nil
  show ?case by simp
next
  case (Cons k keys)
  show ?case
  proof (cases "dict_get pbk k")
    case (Inl e)
    then show ?thesis by simp
  next
    case (Inr pkg)
    obtain s1 r1 where s1: "import_one ev pkg s = (s1, r1)" by (cases "import_one ev pkg s")
    have st: "packages_state (progress_report s1) = packages_state (progress_report s)"
      using import_one_state [of ev pkg s] s1 by simp
    show ?thesis
    proof (cases r1)
      case (Some e)
      with Inr s1 st show ?thesis by simp
    next
      case None
      with Inr s1 st Cons.IH [of s1] show ?thesis by simp
    qed
  qed
qed

subsection \<open>The removal loop\<close>

lemma remove_loop_store:
  "\<exists>removed. store_log (fst (remove_loop ev d keys s)) = store_log s @ map RemoveUnit removed
     \<and> (snd (remove_loop ev d keys s) = None \<longrightarrow> map Inr removed = map (dict_get d) keys)"
proof (induction keys arbitrary: s)
  case Nil
  show ?case by (intro exI [of _ "[]"]) simp
next
  case (Cons k keys)
  show ?case
  proof (cases "dict_get d k")
    case (Inl e)
    then show ?thesis by (intro exI [of _ "[]"]) simp
  next
    case (Inr doomed)
    show ?thesis
    proof (cases "remove_unit_raises ev doomed")
      case (Some e)
      with Inr show ?thesis
        by (intro exI [of _ "[]"]) (simp add: store_call_eq appends_Nil)
    next
      case None
      let ?s1 = "appends s [RemoveUnit doomed]"
      from Inr None have eq: "remove_loop ev d (k # keys) s = remove_loop ev d keys ?s1"
        by (simp add: store_call_eq)
      obtain removed where
        l: "store_log (fst (remove_loop ev d keys ?s1)) = store_log ?s1 @ map RemoveUnit removed"
        and r: "snd (remove_loop ev d keys ?s1) = None \<longrightarrow> map Inr removed = map (dict_get d) keys"
        using Cons.IH by blast
      show ?thesis
        using eq l r Inr by (intro exI [of _ "doomed # removed"]) (simp add: appends_sel)
    qed
  qed
qed

lemma remove_loop_log: "progress_log (fst (remove_loop ev d keys s)) = progress_log s"
  by (induction keys arbitrary: s)
     (auto simp: store_call_eq appends_sel split: sum.splits option.splits)

lemma remove_loop_report: "progress_report (fst (remove_loop ev d keys s)) = progress_report s"
  by (induction keys arbitrary: s)
     (auto simp: store_call_eq appends_sel split: sum.splits option.splits)

lemma existing_lookup:
  assumes "distinct (map (\<lambda>u. unit_key_str (unit_key u)) existing)"
  shows "(dict_get (dict_of_pairs [] (map (\<lambda>u. (unit_key_str (unit_key u), u)) existing)) k = Inr u)
       = (u \<in> set existing \<and> unit_key_str (unit_key u) = k)"
proof -
  let ?ps = "map (\<lambda>u. (unit_key_str (unit_key u), u)) existing"
  have d: "distinct (map fst ?ps)" using assms by (simp add: comp_def)
  have "map_of (dict_of_pairs [] ?ps) = map_of ?ps"
    using d by (simp add: map_of_dict_of_pairs map_of_rev_distinct)
  then have "(dict_get (dict_of_pairs [] ?ps) k = Inr u) = (map_of ?ps k = Some u)"
    by (simp add: dict_get_def split: option.splits)
  also have "\<dots> = ((k, u) \<in> set ?ps)"
    using d by simp
  also have "\<dots> = (u \<in> set existing \<and> unit_key_str (unit_key u) = k)"
    by auto
  finally show ?thesis .
qed

subsection \<open>The import phase\<close>

lemma do_import_packages_eq:
  "do_import_packages ev s =
     (case create_import_downloader_raises ev of
        Some e \<Rightarrow> (s, Some e)
      | None \<Rightarrow>
         (case get_units_result ev of
            Inl e \<Rightarrow> (s, Some e)
          | Inr existing \<Rightarrow>
             (case import_loop ev (packages_by_key_of (dist_packages s))
                     (new_unit_keys_of existing (dist_packages s)) (counts_set existing s) of
                (s3, Some e) \<Rightarrow> (s3, Some e)
              | (s3, None) \<Rightarrow>
                  if should_remove_missing (config s3)
                  then remove_loop ev (existing_units_by_key_of existing)
                         (remove_unit_keys_of existing (dist_packages s)) s3
                  else (s3, None))))"
  by (simp add: do_import_packages_def packages_by_key_of_def new_unit_keys_of_def
        remove_unit_keys_of_def existing_units_by_key_of_def counts_set_def existing_keys_of_def
        Let_def del: map_map split: option.splits sum.splits prod.splits)

lemma counts_set_sel:
  "store_log (counts_set existing s) = store_log s"
  "config (counts_set existing s) = config s"
  "dist_packages (counts_set existing s) = dist_packages s"
  "progress_log (counts_set existing s) = progress_log s @ [progress_report (counts_set existing s)]"
  "packages_finished_count (progress_report (counts_set existing s)) = Some 0"
  "packages_error_count (progress_report (counts_set existing s)) = Some 0"
  "packages_state (progress_report (counts_set existing s)) = packages_state (progress_report s)"
  by (simp_all add: counts_set_def update_progress_def)

lemma found_keys: "set (dict_keys (packages_by_key_of pkgs)) = Package_key ` set pkgs"
  by (simp add: dict_keys_def packages_by_key_of_def keys_dict_of_pairs image_image)

lemma new_keys_lookup:
  assumes "k \<in> set (new_unit_keys_of existing pkgs)"
  shows "\<exists>pkg. dict_get (packages_by_key_of pkgs) k = Inr pkg \<and> Package_key pkg = k
           \<and> pkg \<in> set pkgs"
proof -
  let ?pbk = "packages_by_key_of pkgs"
  from assms have "k \<in> set (dict_keys ?pbk)"
    by (auto simp: new_unit_keys_of_def resolve_new_units_def)
  then have "k \<in> fst ` set ?pbk"
    by (simp add: dict_keys_def)
  then obtain pkg where m: "map_of ?pbk k = Some pkg"
    by (metis domD dom_map_of_conv_image_fst)
  then have "(k, pkg) \<in> set ?pbk"
    by (rule map_of_SomeD)
  then have "(k, pkg) \<in> set (map (\<lambda>p. (Package_key p, p)) pkgs)"
    using set_dict_of_pairs [of "[]" "map (\<lambda>p. (Package_key p, p)) pkgs"]
    by (auto simp: packages_by_key_of_def)
  then have "Package_key pkg = k \<and> pkg \<in> set pkgs"
    by auto
  with m show ?thesis
    by (simp add: dict_get_def)
qed

lemma existing_keys: "existing_keys_of existing = map (\<lambda>u. unit_key_str (unit_key u)) existing"
  by (simp add: existing_keys_of_def Package_key_def Package_from_unit_def)

lemma set_remove_unit_keys:
  "set (remove_unit_keys_of existing pkgs)
     = (\<lambda>u. unit_key_str (unit_key u)) ` set existing - Package_key ` set pkgs"
  by (auto simp: remove_unit_keys_of_def resolve_remove_units_def found_keys existing_keys)

lemma removed_exact:
  assumes d: "distinct (map (\<lambda>u. unit_key_str (unit_key u)) existing)"
    and m: "map Inr removed
              = map (dict_get (existing_units_by_key_of existing)) (remove_unit_keys_of existing pkgs)"
  shows "set removed
           = {u \<in> set existing. unit_key_str (unit_key u) \<notin> Package_key ` set pkgs}"
proof -
  have look: "\<And>k u. (dict_get (existing_units_by_key_of existing) k = Inr u)
                 = (u \<in> set existing \<and> unit_key_str (unit_key u) = k)"
    unfolding existing_units_by_key_of_def using existing_lookup [OF d] .
  have "\<And>u. (u \<in> set removed)
           = (Inr u \<in> set (map Inr removed :: (exn + unit) list))"
    by auto
  then have "\<And>u. (u \<in> set removed)
           = (\<exists>k\<in>set (remove_unit_keys_of existing pkgs).
                dict_get (existing_units_by_key_of existing) k = Inr u)"
    unfolding m by (metis (no_types, lifting) image_iff list.set_map)
  then have "\<And>u. (u \<in> set removed)
           = (u \<in> set existing
               \<and> unit_key_str (unit_key u) \<in> set (remove_unit_keys_of existing pkgs))"
    unfolding look by auto
  then show ?thesis
    unfolding set_remove_unit_keys by auto
qed

lemma do_import_packages_state:
  "packages_state (progress_report (fst (do_import_packages ev s)))
     = packages_state (progress_report s)"
proof (cases "create_import_downloader_raises ev")
  case (Some e)
  then show ?thesis by (simp add: do_import_packages_eq)
next
  case None
  show ?thesis
  proof (cases "get_units_result ev")
    case (Inl e)
    with None show ?thesis by (simp add: do_import_packages_eq)
  next
    case (Inr existing)
    let ?loop = "import_loop ev (packages_by_key_of (dist_packages s))
                   (new_unit_keys_of existing (dist_packages s)) (counts_set existing s)"
    obtain s3 r3 where loop: "?loop = (s3, r3)" by (cases ?loop)
    have "packages_state (progress_report s3) = packages_state (progress_report s)"
      using import_loop_state [of ev "packages_by_key_of (dist_packages s)"
          "new_unit_keys_of existing (dist_packages s)" "counts_set existing s"] loop
      by (simp add: counts_set_sel)
    then show ?thesis
      using None Inr loop
      by (auto simp: do_import_packages_eq remove_loop_report split: option.splits)
  qed
qed

subsection \<open>Unfolding the example\<close>

lemmas example_defs = example_key_def example_package_def example_unit_def example_env_def
  example_remote_def example_existing_def example_run_def

lemmas run_defs = do_import_packages_def import_one_def add_new_package_def
  content_units_from_package_def content_unit_def store_call_def update_progress_def
  add_failed_package_def resolve_new_units_def resolve_remove_units_def dict_keys_def
  dict_get_def Package_key_def Package_unit_key_def Package_from_unit_def get_resources_def
  unit_key_str_def should_remove_missing_def PackageSyncRun_init_def SyncProgressReport_init_def
  TYPE_DEB_def CONFIG_REMOVE_MISSING_def DEFAULT_REMOVE_MISSING_def STATE_NOT_STARTED_def
  STATE_RUNNING_def STATE_SUCCESS_def Let_def

subsection \<open>The publish report\<close>

lemma getitem_PDict:
  "getitem (PDict kvs) k =
     (case map_of kvs k of Some v \<Rightarrow> Inr v | None \<Rightarrow> Inl (Exception ''KeyError''))"
  by (simp add: getitem_def)

lemma and_then_Inr: "and_then (Inr v) f = f v"
  by (simp add: and_then_def)

lemma from_progress_dict_build:
  "from_progress_dict (build_progress_report fe ft r) =
     Inr ((PublishProgressReport_init None)
           \<lparr> PublishProgressReport.packages_state := PublishProgressReport.packages_state r,
             PublishProgressReport.packages_execution_time :=
               PublishProgressReport.packages_execution_time r,
             PublishProgressReport.packages_total_count :=
               PublishProgressReport.packages_total_count r,
             PublishProgressReport.packages_finished_count :=
               PublishProgressReport.packages_finished_count r,
             PublishProgressReport.packages_error_count :=
               PublishProgressReport.packages_error_count r,
             PublishProgressReport.packages_individual_errors :=
               PublishProgressReport.packages_individual_errors r,
             PublishProgressReport.packages_error_message :=
               PublishProgressReport.packages_error_message r,
             PublishProgressReport.packages_exception :=
               fe (PublishProgressReport.packages_exception r),
             PublishProgressReport.packages_traceback :=
               ft (PublishProgressReport.packages_traceback r),
             metadata_state := metadata_state r,
             metadata_execution_time := metadata_execution_time r,
             metadata_error_message := metadata_error_message r,
             metadata_exception := fe (metadata_exception r),
             metadata_traceback := ft (metadata_traceback r),
             publish_http := publish_http r,
             publish_https := publish_https r \<rparr>)"
  by (simp add: from_progress_dict_def build_progress_report_def packages_section_def
        metadata_section_def publishing_section_def getitem_PDict and_then_Inr)

lemma build_final_report_value:
  assumes "conduit r = Some c"
    and "is_seconds (metadata_execution_time r)"
    and "is_seconds (PublishProgressReport.packages_execution_time r)"
  shows "build_final_report r =
      Inr ((if metadata_state r = PStr STATE_SUCCESS
               \<and> PublishProgressReport.packages_state r = PStr STATE_SUCCESS
            then SuccessReport else FailureReport)
           (PDict [(''total_execution_time'',
                    PInt (total_time (metadata_execution_time r)
                            (PublishProgressReport.packages_execution_time r)))])
           (PDict []))"
  using assms
  by (auto simp: build_final_report_def is_seconds_def total_time_def and_then_def
       split: pyval.splits)

lemma build_final_report_needs_packages_success:
  "PublishProgressReport.packages_state r \<noteq> PStr STATE_SUCCESS
     \<Longrightarrow> build_final_report r \<noteq> Inr (SuccessReport summary details)"
  by (auto simp: build_final_report_def and_then_def Let_def split: sum.splits option.splits if_splits)

subsection \<open>The calls of perform_sync\<close>

lemma fst_perform_sync_try_with:
  "fst (perform_sync_try_with c ev s) = fst (perform_sync_try ev s)"
  by (simp add: perform_sync_try_with_def perform_sync_try_def
        split: prod.splits option.splits sum.splits)

lemma perform_sync_with_reliable:
  "perform_sync_with reliable_calls ev s = perform_sync ev s"
  by (simp add: perform_sync_with_def finally_block_def perform_sync_try_with_def
        perform_sync_def perform_sync_try_def reliable_calls_def Let_def update_progress_def
        split: prod.splits option.splits sum.splits)

lemma finally_block_ok:
  assumes "set_progress_raises c (length (progress_log s1)) = None"
    and "final_report_call c (progress_report s1) = Inr rep"
  shows "finally_block c (s1, pending) = (update_progress s1, Inr rep)"
  using assms by (simp add: finally_block_def update_progress_def)

lemma finally_block_push_raises:
  assumes "set_progress_raises c (length (progress_log s1)) = Some e"
  shows "finally_block c (s1, pending) = (s1, Inl e)"
  using assms by (simp add: finally_block_def)

lemma finally_block_report_raises:
  assumes "set_progress_raises c (length (progress_log s1)) = None"
    and "final_report_call c (progress_report s1) = Inl e"
  shows "finally_block c (s1, pending) = (update_progress s1, Inl e)"
  using assms by (simp add: finally_block_def update_progress_def)

text \<open>
  With \<^verbatim>\<open>build_final_report\<close> as modelled, a run whose index is fetched and parsed to
  an empty package list ends without import and with a failure report.
\<close>

lemma empty_index_ends_run_without_import:
  assumes "fetch_indexes ev = Inr fetched"
    and "update_from_resources_result ev fetched = (None, [])"
  shows "\<exists>s'. perform_sync ev (PackageSyncRun_init cfg)
           = (s', Inr (FailureReport (PDict [(''total_execution_time'', PInt (- 1))]) (PDict [])))
     \<and> state (progress_report s') = STATE_SUCCESS
     \<and> packages_state (progress_report s') = STATE_NOT_STARTED
     \<and> map packages_state (progress_log s')
         = [STATE_NOT_STARTED, STATE_NOT_STARTED, STATE_NOT_STARTED]
     \<and> store_log s' = []
     \<and> (\<forall>r summary details.
           PublishProgressReport.packages_state r = PStr STATE_NOT_STARTED
             \<longrightarrow> build_final_report r \<noteq> Inr (SuccessReport summary details))"
proof -
  have "\<forall>r summary details.
           PublishProgressReport.packages_state r = PStr STATE_NOT_STARTED
             \<longrightarrow> build_final_report r \<noteq> Inr (SuccessReport summary details)"
    using build_final_report_needs_packages_success
    by (simp add: STATE_NOT_STARTED_def STATE_SUCCESS_def)
  then show ?thesis
    using assms
    by (simp add: perform_sync_def perform_sync_try_def update_dist_def index_failed_def
          update_progress_def PackageSyncRun_init_def SyncProgressReport_init_def
          sync_build_final_report_def STATE_NOT_STARTED_def STATE_SUCCESS_def STATE_FAILED_def)
qed

section \<open>The claims\<close>

text \<open>
  Claim C1. During the package-import loop of \<^verbatim>\<open>_do_import_packages\<close>, for every key
  of the new-unit set: when the import of the package raises an exception (an instance
  of \<^verbatim>\<open>Exception\<close>, which is what the handler of line 237 names),
  \<^verbatim>\<open>add_failed_package\<close> records the failure under the package's key and raises the
  error count, the finished count is not raised, and the loop goes on with the next key;
  when the import succeeds the finished count is raised by one; a progress update is
  pushed after each package. So the loop, run on the dictionary, the keys and the counts
  that \<^verbatim>\<open>_do_import_packages\<close> gives it, returns normally after all keys: the finished
  count is the number of imported packages, the error count the number of failed ones,
  every failed key is a key of the map of individual errors, one snapshot was pushed
  per key, and the snapshots show finished plus error counts growing by one each time.
  The phase state is not touched. Lemmas \<open>import_one_ok\<close> and \<open>import_one_failed\<close>
  give the single turn.
\<close>

theorem import_loop_isolates_failures:
  assumes out: "\<forall>p\<in>set (dist_packages s).
                  add_outcome ev p = None \<or> (\<exists>m. add_outcome ev p = Some (Exception m))"
  shows "\<exists>s' snaps.
        import_loop ev (packages_by_key_of (dist_packages s))
          (new_unit_keys_of existing (dist_packages s)) (counts_set existing s) = (s', None)
      \<and> packages_finished_count (progress_report s')
          = Some (int (length (filter (imported ev (packages_by_key_of (dist_packages s)))
                                 (new_unit_keys_of existing (dist_packages s)))))
      \<and> packages_error_count (progress_report s')
          = Some (int (length (filter (\<lambda>k. \<not> imported ev (packages_by_key_of (dist_packages s)) k)
                                 (new_unit_keys_of existing (dist_packages s)))))
      \<and> packages_state (progress_report s') = packages_state (progress_report s)
      \<and> progress_log s' = progress_log (counts_set existing s) @ snaps
      \<and> map processed_count snaps
          = map (\<lambda>i. Some (1 + int i)) [0..<length (new_unit_keys_of existing (dist_packages s))]
      \<and> error_keys (progress_report s')
          = error_keys (progress_report s)
            \<union> {k \<in> set (new_unit_keys_of existing (dist_packages s)).
                 \<not> imported ev (packages_by_key_of (dist_packages s)) k}"
proof -
  let ?pbk = "packages_by_key_of (dist_packages s)"
  let ?keys = "new_unit_keys_of existing (dist_packages s)"
  let ?s = "counts_set existing s"
  have keys: "\<forall>k\<in>set ?keys. \<exists>pkg. dict_get ?pbk k = Inr pkg \<and> Package_key pkg = k
               \<and> \<not> exits (add_outcome ev pkg)"
  proof
    fix k
    assume "k \<in> set ?keys"
    then obtain pkg where pkg: "dict_get ?pbk k = Inr pkg" "Package_key pkg = k"
      and mem: "pkg \<in> set (dist_packages s)"
      using new_keys_lookup by blast
    from out mem have "add_outcome ev pkg = None \<or> (\<exists>m. add_outcome ev pkg = Some (Exception m))"
      by blast
    then have "\<not> exits (add_outcome ev pkg)" by auto
    with pkg show "\<exists>pkg. dict_get ?pbk k = Inr pkg \<and> Package_key pkg = k
               \<and> \<not> exits (add_outcome ev pkg)"
      by blast
  qed
  have f: "packages_finished_count (progress_report ?s) = Some 0"
    and e: "packages_error_count (progress_report ?s) = Some 0"
    by (simp_all add: counts_set_sel)
  have ek: "error_keys (progress_report ?s) = error_keys (progress_report s)"
    by (simp add: counts_set_def update_progress_def error_keys_def)
  show ?thesis
    using import_loop_all [OF keys f e] ek by (simp add: counts_set_sel)
qed

theorem import_loop_isolates_failures_witness:
  "\<exists>s' snaps.
      import_loop (example_env (Inr []) example_remote example_existing (Some (Exception ''IOError'')))
        (packages_by_key_of (dist_packages (example_run False)))
        (new_unit_keys_of [] (dist_packages (example_run False)))
        (counts_set [] (example_run False)) = (s', None)
    \<and> new_unit_keys_of [] (dist_packages (example_run False)) = [''A-1.0-alice'', ''B-2.0-bob'']
    \<and> packages_finished_count (progress_report s') = Some 1
    \<and> packages_error_count (progress_report s') = Some 1
    \<and> packages_state (progress_report s') = STATE_NOT_STARTED
    \<and> progress_log s' = progress_log (counts_set [] (example_run False)) @ snaps
    \<and> map processed_count snaps = [Some 1, Some 2]
    \<and> error_keys (progress_report s') = {''B-2.0-bob''}"
proof -
  let ?ev = "example_env (Inr []) example_remote example_existing (Some (Exception ''IOError''))"
  let ?s = "example_run False"
  let ?pbk = "packages_by_key_of (dist_packages ?s)"
  have a: "add_outcome ?ev (example_package ''A'' ''1.0'' ''alice'') = None"
    by (simp add: add_outcome_def example_defs run_defs)
  have b: "add_outcome ?ev (example_package ''B'' ''2.0'' ''bob'') = Some (Exception ''IOError'')"
    by (simp add: add_outcome_def example_defs run_defs)
  have pk: "dist_packages ?s = [example_package ''A'' ''1.0'' ''alice'', example_package ''B'' ''2.0'' ''bob'']"
    by (simp add: example_run_def example_remote_def)
  have out: "\<forall>p\<in>set (dist_packages ?s).
                  add_outcome ?ev p = None \<or> (\<exists>m. add_outcome ?ev p = Some (Exception m))"
    using a b by (simp add: pk)
  have nk: "new_unit_keys_of [] (dist_packages ?s) = [''A-1.0-alice'', ''B-2.0-bob'']"
    by (simp add: new_unit_keys_of_def existing_keys_of_def packages_by_key_of_def
          example_defs run_defs)
  have ga: "dict_get ?pbk ''A-1.0-alice'' = Inr (example_package ''A'' ''1.0'' ''alice'')"
    by (simp add: packages_by_key_of_def example_defs run_defs)
  have gb: "dict_get ?pbk ''B-2.0-bob'' = Inr (example_package ''B'' ''2.0'' ''bob'')"
    by (simp add: packages_by_key_of_def example_defs run_defs)
  have ia: "imported ?ev ?pbk ''A-1.0-alice''"
    and ib: "\<not> imported ?ev ?pbk ''B-2.0-bob''"
    using a b ga gb by (simp_all add: imported_def)
  have st: "packages_state (progress_report ?s) = STATE_NOT_STARTED"
    and ek: "error_keys (progress_report ?s) = {}"
    by (simp_all add: error_keys_def example_run_def run_defs)
  have up: "[0..<length [''A-1.0-alice'', ''B-2.0-bob'']] = [0, 1]"
    by (simp add: upt_rec)
  show ?thesis
    using import_loop_isolates_failures [OF out, of "[]"] ia ib st ek up
    unfolding nk
    by (auto simp del: import_loop.simps upt_Suc)
qed

text \<open>
  Claim C2. In every run in which fetching the index resources fails (creating the
  downloader or downloading the indexes raises an exception), the run ends without
  starting the package import: the import phase state stays \<^verbatim>\<open>not-started\<close> in the
  final report object and in every snapshot pushed, no store write is made, the index
  phase is marked \<^verbatim>\<open>failed\<close> with the error message, the exception, the traceback and
  the elapsed time recorded, and that report is pushed (the second of the three
  snapshots of the run; the third is the final push of \<^verbatim>\<open>perform_sync\<close>).
\<close>

theorem index_fetch_failure_ends_run:
  assumes "fetch_indexes ev = Inl (Exception m)"
  shows "\<exists>s'. perform_sync ev (PackageSyncRun_init cfg)
           = (s', Inr (FailureReport (PDict [(''total_execution_time'', PInt (- 1))]) (PDict [])))
     \<and> packages_state (progress_report s') = STATE_NOT_STARTED
     \<and> store_log s' = []
     \<and> state (progress_report s') = STATE_FAILED
     \<and> error_message (progress_report s') = Some ''Error downloading resources''
     \<and> exception (progress_report s') = Some (Exception m)
     \<and> traceback (progress_report s') = Some (TracebackOf (Exception m))
     \<and> execution_time (progress_report s') = Some (index_seconds ev)
     \<and> progress_log s'
         = [SyncProgressReport_init\<lparr> resource_state := Some STATE_RUNNING \<rparr>,
            progress_report s', progress_report s']
     \<and> map packages_state (progress_log s')
         = [STATE_NOT_STARTED, STATE_NOT_STARTED, STATE_NOT_STARTED]"
  using assms
  by (simp add: perform_sync_def perform_sync_try_def update_dist_def index_failed_def
        update_progress_def PackageSyncRun_init_def SyncProgressReport_init_def
        sync_build_final_report_def STATE_NOT_STARTED_def STATE_SUCCESS_def STATE_FAILED_def)

theorem index_fetch_failure_ends_run_witness:
  "\<exists>s'. perform_sync (example_env (Inl (Exception ''IOError'')) example_remote example_existing None)
           (PackageSyncRun_init Map.empty)
         = (s', Inr (FailureReport (PDict [(''total_execution_time'', PInt (- 1))]) (PDict [])))
     \<and> packages_state (progress_report s') = STATE_NOT_STARTED
     \<and> store_log s' = []
     \<and> state (progress_report s') = STATE_FAILED
     \<and> exception (progress_report s') = Some (Exception ''IOError'')
     \<and> execution_time (progress_report s') = Some 2
     \<and> length (progress_log s') = 3"
proof -
  let ?ev = "example_env (Inl (Exception ''IOError'')) example_remote example_existing None"
  have h: "fetch_indexes ?ev = Inl (Exception ''IOError'')"
    by (simp add: fetch_indexes_def example_env_def)
  have t: "index_seconds ?ev = 2"
    by (simp add: example_env_def)
  show ?thesis
    using index_fetch_failure_ends_run [OF h, of Map.empty] t by auto
qed


text \<open>
  Claim C4. For every pair of key collections, the keys that \<^verbatim>\<open>_resolve_new_units\<close>
  returns are the set difference found minus existing, the keys that
  \<^verbatim>\<open>_resolve_remove_units\<close> returns are existing minus found, and the two are disjoint.
  Neither list repeats a key.
\<close>

theorem resolve_units_set_difference:
  "set (resolve_new_units existing found) = set found - set existing
   \<and> set (resolve_remove_units existing found) = set existing - set found
   \<and> set (resolve_new_units existing found) \<inter> set (resolve_remove_units existing found) = {}
   \<and> distinct (resolve_new_units existing found)
   \<and> distinct (resolve_remove_units existing found)"
  by (auto simp: resolve_new_units_def resolve_remove_units_def)

text \<open>
  Claim C5, as amended. For every progress report of the server (one that holds its
  conduit) whose two execution times are \<^verbatim>\<open>None\<close> or integers, \<^verbatim>\<open>build_final_report\<close>
  returns a success report if and only if the metadata phase state and the package
  phase state both equal \<^verbatim>\<open>success\<close>, and a failure report otherwise; the publish
  states never affect the report; the summary carries the sum of the two execution
  times when both are recorded, and \<open>-1\<close> when either is \<^verbatim>\<open>None\<close>.
\<close>

theorem build_final_report_outcome:
  assumes "conduit r = Some c"
    and "is_seconds (metadata_execution_time r)"
    and "is_seconds (PublishProgressReport.packages_execution_time r)"
  shows "build_final_report r =
      Inr ((if metadata_state r = PStr STATE_SUCCESS
               \<and> PublishProgressReport.packages_state r = PStr STATE_SUCCESS
            then SuccessReport else FailureReport)
           (PDict [(''total_execution_time'',
                    PInt (total_time (metadata_execution_time r)
                            (PublishProgressReport.packages_execution_time r)))])
           (PDict []))
    \<and> (\<exists>summary details. build_final_report r = Inr (SuccessReport summary details))
        = (metadata_state r = PStr STATE_SUCCESS
            \<and> PublishProgressReport.packages_state r = PStr STATE_SUCCESS)
    \<and> build_final_report (r\<lparr> publish_http := h, publish_https := hs \<rparr>) = build_final_report r"
proof -
  have v: "build_final_report r =
      Inr ((if metadata_state r = PStr STATE_SUCCESS
               \<and> PublishProgressReport.packages_state r = PStr STATE_SUCCESS
            then SuccessReport else FailureReport)
           (PDict [(''total_execution_time'',
                    PInt (total_time (metadata_execution_time r)
                            (PublishProgressReport.packages_execution_time r)))])
           (PDict []))"
    using assms by (rule build_final_report_value)
  have p: "build_final_report (r\<lparr> publish_http := h, publish_https := hs \<rparr>) = build_final_report r"
    by (simp add: build_final_report_def)
  show ?thesis
    using v p by simp
qed

theorem build_final_report_outcome_witness:
  "build_final_report
     (example_publish_report
        \<lparr> PublishProgressReport.packages_state := PStr STATE_SUCCESS,
          PublishProgressReport.packages_execution_time := PInt 5 \<rparr>)
   = Inr (SuccessReport (PDict [(''total_execution_time'', PInt 7)]) (PDict []))"
proof -
  let ?r = "example_publish_report
        \<lparr> PublishProgressReport.packages_state := PStr STATE_SUCCESS,
          PublishProgressReport.packages_execution_time := PInt 5 \<rparr>"
  have c: "conduit ?r = Some (Conduit ''conduit'')"
    by (simp add: example_publish_report_def PublishProgressReport_init_def)
  have m: "is_seconds (metadata_execution_time ?r)"
    by (simp add: example_publish_report_def is_seconds_def)
  have p: "is_seconds (PublishProgressReport.packages_execution_time ?r)"
    by (simp add: is_seconds_def)
  show ?thesis
    using build_final_report_outcome [OF c m p]
    by (simp add: example_publish_report_def total_time_def)
qed

text \<open>
  Claim C5, as stated, fails in its last part: in the example the index phase took 2
  seconds and the import has recorded no time; the summary carries \<open>-1\<close>, not an
  elapsed time.
\<close>

theorem build_final_report_summary_without_times:
  "metadata_execution_time example_publish_report = PInt 2
   \<and> PublishProgressReport.packages_execution_time example_publish_report = PNone
   \<and> build_final_report example_publish_report
       = Inr (FailureReport (PDict [(''total_execution_time'', PInt (- 1))]) (PDict []))"
  by (simp add: example_publish_report_def PublishProgressReport_init_def build_final_report_def
        and_then_def STATE_SUCCESS_def STATE_NOT_STARTED_def)

text \<open>
  Claim C6. For every progress report \<open>r\<close>, \<^verbatim>\<open>from_progress_dict\<close> applied to the
  snapshot \<^verbatim>\<open>build_progress_report\<close> of \<open>r\<close> raises nothing and returns a report that
  equals \<open>r\<close> on the phase states, the execution times, the counts, the map of
  individual errors, the error messages and the http and https states. The rebuilt
  report has no conduit, and its exception and traceback attributes hold what
  \<^verbatim>\<open>format_exception\<close> and \<^verbatim>\<open>format_traceback\<close> made of the originals.
\<close>

theorem from_progress_dict_round_trip:
  "\<exists>r'. from_progress_dict (build_progress_report fe ft r) = Inr r'
     \<and> PublishProgressReport.packages_state r' = PublishProgressReport.packages_state r
     \<and> metadata_state r' = metadata_state r
     \<and> PublishProgressReport.packages_execution_time r'
         = PublishProgressReport.packages_execution_time r
     \<and> metadata_execution_time r' = metadata_execution_time r
     \<and> PublishProgressReport.packages_total_count r'
         = PublishProgressReport.packages_total_count r
     \<and> PublishProgressReport.packages_finished_count r'
         = PublishProgressReport.packages_finished_count r
     \<and> PublishProgressReport.packages_error_count r'
         = PublishProgressReport.packages_error_count r
     \<and> PublishProgressReport.packages_individual_errors r'
         = PublishProgressReport.packages_individual_errors r
     \<and> PublishProgressReport.packages_error_message r'
         = PublishProgressReport.packages_error_message r
     \<and> metadata_error_message r' = metadata_error_message r
     \<and> publish_http r' = publish_http r
     \<and> publish_https r' = publish_https r
     \<and> PublishProgressReport.packages_exception r'
         = fe (PublishProgressReport.packages_exception r)
     \<and> PublishProgressReport.packages_traceback r'
         = ft (PublishProgressReport.packages_traceback r)
     \<and> metadata_exception r' = fe (metadata_exception r)
     \<and> metadata_traceback r' = ft (metadata_traceback r)
     \<and> conduit r' = None"
  by (simp add: from_progress_dict_build PublishProgressReport_init_def)

text \<open>
  Claim C7. In every run in which \<^verbatim>\<open>_do_import_packages\<close> returns without raising,
  \<^verbatim>\<open>_import_packages\<close> sets the package-import phase state to \<^verbatim>\<open>success\<close>, whatever
  the error count is: the state was still \<^verbatim>\<open>running\<close> when \<^verbatim>\<open>_do_import_packages\<close>
  returned (no failure of a package touches it), and the error count, the finished
  count, the total count and the map of individual errors are the ones that
  \<^verbatim>\<open>_do_import_packages\<close> left. In the witness the import of \<^verbatim>\<open>B-2.0-bob\<close> fails: the
  phase state is \<^verbatim>\<open>success\<close>, the error count 1, the finished count 0.
\<close>

theorem import_phase_success_despite_failures:
  assumes "do_import_packages ev
             (s\<lparr> progress_report := (progress_report s)\<lparr> packages_state := STATE_RUNNING \<rparr> \<rparr>)
           = (s2, None)"
  shows "\<exists>s'. import_packages ev s = (s', None)
     \<and> packages_state (progress_report s2) = STATE_RUNNING
     \<and> packages_state (progress_report s') = STATE_SUCCESS
     \<and> packages_execution_time (progress_report s') = Some (packages_seconds ev)
     \<and> packages_error_count (progress_report s') = packages_error_count (progress_report s2)
     \<and> packages_finished_count (progress_report s') = packages_finished_count (progress_report s2)
     \<and> packages_total_count (progress_report s') = packages_total_count (progress_report s2)
     \<and> packages_individual_errors (progress_report s')
         = packages_individual_errors (progress_report s2)
     \<and> progress_log s' = progress_log s2 @ [progress_report s']"
proof -
  let ?s1 = "s\<lparr> progress_report := (progress_report s)\<lparr> packages_state := STATE_RUNNING \<rparr> \<rparr>"
  have "packages_state (progress_report s2) = STATE_RUNNING"
    using do_import_packages_state [of ev ?s1] assms by simp
  then show ?thesis
    using assms by (simp add: import_packages_def update_progress_def)
qed

theorem import_phase_success_despite_failures_witness:
  "\<exists>s'. import_packages
           (example_env (Inr []) example_remote example_existing (Some (Exception ''IOError'')))
           (example_run False) = (s', None)
     \<and> packages_state (progress_report s') = STATE_SUCCESS
     \<and> packages_error_count (progress_report s') = Some 1
     \<and> packages_finished_count (progress_report s') = Some 0
     \<and> packages_total_count (progress_report s') = Some 1
     \<and> packages_individual_errors (progress_report s') = Some [(''B-2.0-bob'', ''IOError'')]"
proof -
  let ?ev = "example_env (Inr []) example_remote example_existing (Some (Exception ''IOError''))"
  let ?s1 = "(example_run False)
               \<lparr> progress_report :=
                   (progress_report (example_run False))\<lparr> packages_state := STATE_RUNNING \<rparr> \<rparr>"
  let ?s2 = "fst (do_import_packages ?ev ?s1)"
  have "snd (do_import_packages ?ev ?s1) = None"
    by (simp add: example_defs run_defs)
  then have h: "do_import_packages ?ev ?s1 = (?s2, None)"
    by (simp add: prod_eq_iff)
  have v: "packages_error_count (progress_report ?s2) = Some 1"
    "packages_finished_count (progress_report ?s2) = Some 0"
    "packages_total_count (progress_report ?s2) = Some 1"
    "packages_individual_errors (progress_report ?s2) = Some [(''B-2.0-bob'', ''IOError'')]"
    by (simp_all add: example_defs run_defs)
  show ?thesis
    using import_phase_success_despite_failures [OF h] v by auto
qed

text \<open>
  Claim C8. Missing packages are removed from the store only when the option
  \<^verbatim>\<open>remove_missing\<close> is set to true; absent from the configuration it counts as false.
  The store writes of \<^verbatim>\<open>_do_import_packages\<close> are the writes of the additions followed
  by the removals, so no removal comes before the last write for a new package, and when
  a unit has been removed every new key has had its progress update. When the removal
  is configured, the call returns without raising and the existing units have distinct
  keys (the invariant of the spec's data model), the units removed are exactly the
  existing units whose key is not a key of the remote index.
\<close>

theorem removal_only_when_configured:
  "\<exists>adds removed.
      store_log (fst (do_import_packages ev s)) = store_log s @ adds @ map RemoveUnit removed
    \<and> adds_only adds
    \<and> should_remove_missing (config s) = (config s CONFIG_REMOVE_MISSING = Some True)
    \<and> (\<not> should_remove_missing (config s) \<longrightarrow> removed = [])
    \<and> (removed \<noteq> [] \<longrightarrow>
          (\<exists>existing. get_units_result ev = Inr existing
             \<and> length (progress_log (fst (do_import_packages ev s)))
                 = length (progress_log s) + 1
                   + length (new_unit_keys_of existing (dist_packages s))))
    \<and> (\<forall>existing.
          should_remove_missing (config s) \<and> snd (do_import_packages ev s) = None
          \<and> get_units_result ev = Inr existing
          \<and> distinct (map (\<lambda>u. unit_key_str (unit_key u)) existing)
          \<longrightarrow> set removed
                = {u \<in> set existing. unit_key_str (unit_key u) \<notin> Package_key ` set (dist_packages s)})"
proof -
  have flag: "should_remove_missing (config s) = (config s CONFIG_REMOVE_MISSING = Some True)"
    by (simp add: should_remove_missing_def DEFAULT_REMOVE_MISSING_def split: option.splits)
  have trivial: "snd (do_import_packages ev s) \<noteq> None \<Longrightarrow> fst (do_import_packages ev s) = s
                   \<Longrightarrow> ?thesis"
    using flag adds_only_simps(1)
    by (intro exI [of _ "[]"]) auto
  show ?thesis
  proof (cases "create_import_downloader_raises ev")
    case (Some e)
    then show ?thesis using trivial by (simp add: do_import_packages_eq)
  next
    case None
    show ?thesis
    proof (cases "get_units_result ev")
      case (Inl e)
      with None show ?thesis using trivial by (simp add: do_import_packages_eq)
    next
      case (Inr existing)
      let ?pbk = "packages_by_key_of (dist_packages s)"
      let ?nk = "new_unit_keys_of existing (dist_packages s)"
      let ?s2 = "counts_set existing s"
      obtain s3 r3 where loop: "import_loop ev ?pbk ?nk ?s2 = (s3, r3)"
        by (cases "import_loop ev ?pbk ?nk ?s2")
      obtain adds where a: "adds_only adds" and l3: "store_log s3 = store_log s @ adds"
        and c3: "config s3 = config s"
        using import_loop_store [of ev ?pbk ?nk ?s2] loop by (auto simp: counts_set_sel)
      show ?thesis
      proof (cases "r3 = None \<and> should_remove_missing (config s)")
        case False
        then have res: "do_import_packages ev s = (s3, r3)"
          using None Inr loop c3 by (auto simp: do_import_packages_eq split: option.splits)
        from False have "snd (do_import_packages ev s) \<noteq> None \<or> \<not> should_remove_missing (config s)"
          using res by auto
        then show ?thesis
          using res a l3 flag by (intro exI [of _ adds] exI [of _ "[]"]) auto
      next
        case True
        let ?d = "existing_units_by_key_of existing"
        let ?rk = "remove_unit_keys_of existing (dist_packages s)"
        from True have res: "do_import_packages ev s = remove_loop ev ?d ?rk s3"
          using None Inr loop c3 by (simp add: do_import_packages_eq)
        obtain removed where
          lr: "store_log (fst (remove_loop ev ?d ?rk s3)) = store_log s3 @ map RemoveUnit removed"
          and mr: "snd (remove_loop ev ?d ?rk s3) = None \<longrightarrow> map Inr removed = map (dict_get ?d) ?rk"
          using remove_loop_store by blast
        have pushes: "length (progress_log (fst (do_import_packages ev s)))
                        = length (progress_log s) + 1 + length ?nk"
          using import_loop_pushes [of ev ?pbk ?nk ?s2 s3] loop True
          by (simp add: res remove_loop_log counts_set_sel)
        have exact: "\<forall>existing'.
            should_remove_missing (config s) \<and> snd (do_import_packages ev s) = None
            \<and> get_units_result ev = Inr existing'
            \<and> distinct (map (\<lambda>u. unit_key_str (unit_key u)) existing')
            \<longrightarrow> set removed
                  = {u \<in> set existing'. unit_key_str (unit_key u) \<notin> Package_key ` set (dist_packages s)}"
          using mr res Inr removed_exact by auto
        show ?thesis
          using res lr l3 a flag pushes exact Inr True
          by (intro exI [of _ adds] exI [of _ removed]) simp
      qed
    qed
  qed
qed

theorem removal_only_when_configured_witness:
  "\<exists>adds removed.
      store_log (fst (do_import_packages
                        (example_env (Inr []) example_remote example_existing None)
                        (example_run True)))
        = adds @ map RemoveUnit removed
    \<and> adds_only adds
    \<and> should_remove_missing (config (example_run True))
    \<and> set removed = {example_unit ''C'' ''1.0'' ''carol''}
    \<and> length (progress_log (fst (do_import_packages
                        (example_env (Inr []) example_remote example_existing None)
                        (example_run True)))) = 2"
proof -
  let ?ev = "example_env (Inr []) example_remote example_existing None"
  let ?s = "example_run True"
  obtain adds removed where
    l: "store_log (fst (do_import_packages ?ev ?s)) = store_log ?s @ adds @ map RemoveUnit removed"
    and a: "adds_only adds"
    and p: "removed \<noteq> [] \<longrightarrow>
          (\<exists>existing. get_units_result ?ev = Inr existing
             \<and> length (progress_log (fst (do_import_packages ?ev ?s)))
                 = length (progress_log ?s) + 1
                   + length (new_unit_keys_of existing (dist_packages ?s)))"
    and x: "\<forall>existing.
          should_remove_missing (config ?s) \<and> snd (do_import_packages ?ev ?s) = None
          \<and> get_units_result ?ev = Inr existing
          \<and> distinct (map (\<lambda>u. unit_key_str (unit_key u)) existing)
          \<longrightarrow> set removed
                = {u \<in> set existing. unit_key_str (unit_key u) \<notin> Package_key ` set (dist_packages ?s)}"
    using removal_only_when_configured [of ?ev ?s] by blast
  have flag: "should_remove_missing (config ?s)"
    by (simp add: example_defs run_defs)
  have ret: "snd (do_import_packages ?ev ?s) = None"
    by (simp add: example_defs run_defs)
  have units: "get_units_result ?ev = Inr example_existing"
    by (simp add: example_env_def)
  have d: "distinct (map (\<lambda>u. unit_key_str (unit_key u)) example_existing)"
    by (simp add: example_defs run_defs)
  have "set removed
          = {u \<in> set example_existing.
               unit_key_str (unit_key u) \<notin> Package_key ` set (dist_packages ?s)}"
    using x flag ret units d by blast
  also have "\<dots> = {example_unit ''C'' ''1.0'' ''carol''}"
    by (auto simp: example_defs run_defs)
  finally have r: "set removed = {example_unit ''C'' ''1.0'' ''carol''}" .
  have l0: "store_log ?s = []"
    by (simp add: example_run_def PackageSyncRun_init_def)
  have n: "length (progress_log (fst (do_import_packages ?ev ?s))) = 2"
    by (simp add: example_defs run_defs)
  show ?thesis
    using l a flag r l0 n by auto
qed

text \<open>
  Claim C9 does not hold of the code: \<^verbatim>\<open>_update_dist\<close> sets the attribute
  \<open>resource_state\<close> to \<^verbatim>\<open>running\<close> (line 97) and the attribute \<open>state\<close> to
  \<^verbatim>\<open>failed\<close> or \<^verbatim>\<open>success\<close> (lines 110, 128 and 142). After every call
  \<open>resource_state\<close> is still \<^verbatim>\<open>running\<close>; the first snapshot pushed carries the
  \<open>state\<close> the report had before the call, and the later ones carry \<^verbatim>\<open>success\<close>
  or \<^verbatim>\<open>failed\<close>: the attribute that ends in \<^verbatim>\<open>success\<close> or \<^verbatim>\<open>failed\<close> is never set to
  \<^verbatim>\<open>running\<close>, and the attribute set to \<^verbatim>\<open>running\<close> never leaves it. In the example
  run, whose index is fetched and parsed, the two snapshots show \<open>state\<close> going from
  \<^verbatim>\<open>not-started\<close> to \<^verbatim>\<open>success\<close> while \<open>resource_state\<close> is \<^verbatim>\<open>running\<close> in both.
\<close>

theorem update_dist_writes_two_state_attributes:
  "resource_state (progress_report (fst (update_dist ev s))) = Some STATE_RUNNING
   \<and> (\<exists>snaps. progress_log (fst (update_dist ev s))
         = progress_log s @ (progress_report s)\<lparr> resource_state := Some STATE_RUNNING \<rparr> # snaps
       \<and> set (map state snaps) \<subseteq> {STATE_SUCCESS, STATE_FAILED})
   \<and> state (progress_report (fst (update_dist ev s)))
       \<in> {STATE_SUCCESS, STATE_FAILED, state (progress_report s)}
   \<and> map state (progress_log (fst (update_dist
         (example_env (Inr []) example_remote example_existing None)
         (PackageSyncRun_init Map.empty))))
       = [STATE_NOT_STARTED, STATE_SUCCESS]
   \<and> map resource_state (progress_log (fst (update_dist
         (example_env (Inr []) example_remote example_existing None)
         (PackageSyncRun_init Map.empty))))
       = [Some STATE_RUNNING, Some STATE_RUNNING]"
proof -
  have general:
    "resource_state (progress_report (fst (update_dist ev s))) = Some STATE_RUNNING
     \<and> (\<exists>snaps. progress_log (fst (update_dist ev s))
           = progress_log s @ (progress_report s)\<lparr> resource_state := Some STATE_RUNNING \<rparr> # snaps
         \<and> set (map state snaps) \<subseteq> {STATE_SUCCESS, STATE_FAILED})
     \<and> state (progress_report (fst (update_dist ev s)))
         \<in> {STATE_SUCCESS, STATE_FAILED, state (progress_report s)}"
    by (auto simp: update_dist_def index_failed_def update_progress_def Let_def
          split: sum.splits exn.splits option.splits prod.splits)
  have example:
    "map state (progress_log (fst (update_dist
         (example_env (Inr []) example_remote example_existing None)
         (PackageSyncRun_init Map.empty))))
       = [STATE_NOT_STARTED, STATE_SUCCESS]
     \<and> map resource_state (progress_log (fst (update_dist
         (example_env (Inr []) example_remote example_existing None)
         (PackageSyncRun_init Map.empty))))
       = [Some STATE_RUNNING, Some STATE_RUNNING]"
    by (simp add: update_dist_def fetch_indexes_def update_progress_def example_env_def
          PackageSyncRun_init_def SyncProgressReport_init_def Let_def)
  show ?thesis
    using general example by blast
qed

text \<open>
  Claim C10, as amended. \<^verbatim>\<open>perform_sync\<close> discards whatever its \<^verbatim>\<open>try\<close> block leaves
  pending: in every execution in which the logging of line 66 and the \<^verbatim>\<open>finally\<close>
  block's own \<^verbatim>\<open>update_progress\<close> and \<^verbatim>\<open>build_final_report\<close> do not raise, the
  \<^verbatim>\<open>finally\<close> block pushes one last progress update and returns the result of
  \<^verbatim>\<open>build_final_report\<close>, also when an exception is in flight, so the caller receives a
  report object. The same holds of the \<^verbatim>\<open>finally\<close> block entered with any pending
  outcome. An exception raised by line 66 or by the \<^verbatim>\<open>finally\<close> block's own calls does
  reach the caller (lemmas \<open>finally_block_push_raises\<close> and
  \<open>finally_block_report_raises\<close>). In the witness the index download is interrupted by
  \<^verbatim>\<open>KeyboardInterrupt\<close>, which no handler matches, and \<^verbatim>\<open>perform_sync\<close> returns a report.
\<close>

theorem perform_sync_discards_pending_exception:
  assumes log: "log_info_raises c = None"
    and push: "set_progress_raises c (length (progress_log (fst (perform_sync_try_with c ev s)))) = None"
    and rep: "final_report_call c (progress_report (fst (perform_sync_try_with c ev s))) = Inr rep"
  shows "perform_sync_with c ev s = (update_progress (fst (perform_sync_try_with c ev s)), Inr rep)
     \<and> (\<forall>pending. finally_block c (fst (perform_sync_try_with c ev s), pending)
            = (update_progress (fst (perform_sync_try_with c ev s)), Inr rep))
     \<and> progress_log (fst (perform_sync_with c ev s))
         = progress_log (fst (perform_sync_try_with c ev s))
           @ [progress_report (fst (perform_sync_with c ev s))]"
proof -
  let ?t = "perform_sync_try_with c ev s"
  have all: "\<forall>pending. finally_block c (fst ?t, pending) = (update_progress (fst ?t), Inr rep)"
    using finally_block_ok [OF push rep] by simp
  have "?t = (fst ?t, snd ?t)" by simp
  then have run: "perform_sync_with c ev s = (update_progress (fst ?t), Inr rep)"
    using log all by (metis (no_types, lifting) option.simps(4) perform_sync_with_def)
  show ?thesis
    using run all by (simp add: update_progress_def)
qed

theorem perform_sync_discards_pending_exception_witness:
  "snd (perform_sync_try_with reliable_calls
          (example_env (Inl (SystemExiting ''KeyboardInterrupt'')) example_remote example_existing None)
          (PackageSyncRun_init Map.empty))
     = Inl (SystemExiting ''KeyboardInterrupt'')
   \<and> snd (perform_sync_with reliable_calls
          (example_env (Inl (SystemExiting ''KeyboardInterrupt'')) example_remote example_existing None)
          (PackageSyncRun_init Map.empty))
     = Inr (FailureReport (PDict [(''total_execution_time'', PInt (- 1))]) (PDict []))
   \<and> length (progress_log (fst (perform_sync_with reliable_calls
          (example_env (Inl (SystemExiting ''KeyboardInterrupt'')) example_remote example_existing None)
          (PackageSyncRun_init Map.empty)))) = 2"
proof -
  let ?ev = "example_env (Inl (SystemExiting ''KeyboardInterrupt'')) example_remote example_existing None"
  let ?s = "PackageSyncRun_init Map.empty"
  let ?t = "perform_sync_try_with reliable_calls ?ev ?s"
  have log: "log_info_raises reliable_calls = None"
    by (simp add: reliable_calls_def)
  have push: "set_progress_raises reliable_calls (length (progress_log (fst ?t))) = None"
    by (simp add: reliable_calls_def)
  have t: "?t = (update_progress (?s\<lparr> progress_report :=
                    (progress_report ?s)\<lparr> resource_state := Some STATE_RUNNING \<rparr> \<rparr>),
                 Inl (SystemExiting ''KeyboardInterrupt''))"
    by (simp add: perform_sync_try_with_def update_dist_def fetch_indexes_def example_env_def)
  have rep: "final_report_call reliable_calls (progress_report (fst ?t))
               = Inr (FailureReport (PDict [(''total_execution_time'', PInt (- 1))]) (PDict []))"
    unfolding t
    by (simp add: reliable_calls_def sync_build_final_report_def update_progress_def
          PackageSyncRun_init_def SyncProgressReport_init_def STATE_NOT_STARTED_def STATE_SUCCESS_def)
  have n: "length (progress_log (fst ?t)) = 1"
    unfolding t by (simp add: update_progress_def PackageSyncRun_init_def)
  show ?thesis
    using perform_sync_discards_pending_exception [OF log push rep] t n by (simp add: update_progress_def)
qed

text \<open>
  Claim C10, as stated, fails: the index download of the example raises, the two pushes
  of \<^verbatim>\<open>_update_dist\<close> go through, and the sink raises at the third push, the one of the
  \<^verbatim>\<open>finally\<close> block. The exception of the sink reaches the caller of \<^verbatim>\<open>perform_sync\<close>;
  no report is returned.
\<close>

theorem perform_sync_final_push_raises:
  "snd (perform_sync_with (example_calls 2)
          (example_env (Inl (Exception ''IOError'')) example_remote example_existing None)
          (PackageSyncRun_init Map.empty))
     = Inl (Exception ''ImporterConduitException'')
   \<and> length (progress_log (fst (perform_sync_with (example_calls 2)
          (example_env (Inl (Exception ''IOError'')) example_remote example_existing None)
          (PackageSyncRun_init Map.empty)))) = 2"
  by (simp add: perform_sync_with_def finally_block_def perform_sync_try_with_def update_dist_def
        index_failed_def fetch_indexes_def update_progress_def example_env_def example_calls_def
        reliable_calls_def PackageSyncRun_init_def SyncProgressReport_init_def Let_def)

end
